theory Spec2Isabelle
  imports Complex_Main
begin

section \<open>Completions of JavaScript code\<close>

text \<open>
  A piece of JavaScript either completes normally with a value, throws, or (for an
  \<^verbatim>\<open>async\<close> function awaiting the network) stays pending for ever. An action takes
  the state it runs in and gives the completion together with the state it leaves
  behind: what was mutated before a \<^verbatim>\<open>throw\<close> stays mutated.
\<close>

text \<open>
  What the download flow can throw: the \<^verbatim>\<open>Error\<close> for a status outside 2xx, with
  the status; the rejection of \<^verbatim>\<open>fetch\<close> by the network (an object of class
  TypeError in the browser, kept apart here from the TypeErrors the script causes
  itself); the rejection of \<^verbatim>\<open>response.json()\<close>; a TypeError of the script (a
  property read on \<^verbatim>\<open>null\<close>, a value that does not convert to a string); the
  \<^verbatim>\<open>Error\<close> for a missing address, with its message.
\<close>

datatype error =
    HttpError nat
  | NetworkFailure
  | JsonSyntaxError
  | TypeError
  | ResolutionError string

datatype 'a completion = Normal 'a | Throw error | Pending

type_synonym ('s, 'a) action = "'s \<Rightarrow> 'a completion \<times> 's"

definition ret :: "'a \<Rightarrow> ('s, 'a) action" where
  "ret v s = (Normal v, s)"

definition throwErr :: "error \<Rightarrow> ('s, 'a) action" where
  "throwErr e s = (Throw e, s)"

text \<open>Sequencing: \<^verbatim>\<open>const x = (await) m; f(x)\<close>.\<close>

definition andThen :: "('s, 'a) action \<Rightarrow> ('a \<Rightarrow> ('s, 'b) action) \<Rightarrow> ('s, 'b) action" where
  "andThen m f s =
     (case m s of
        (Normal v, s') \<Rightarrow> f v s'
      | (Throw e, s') \<Rightarrow> (Throw e, s')
      | (Pending, s') \<Rightarrow> (Pending, s'))"

text \<open>\<^verbatim>\<open>try { m } catch (error) { h(error) }\<close>.\<close>

definition tryCatch :: "('s, 'a) action \<Rightarrow> (error \<Rightarrow> ('s, 'a) action) \<Rightarrow> ('s, 'a) action" where
  "tryCatch m h s =
     (case m s of
        (Normal v, s') \<Rightarrow> (Normal v, s')
      | (Throw e, s') \<Rightarrow> h e s'
      | (Pending, s') \<Rightarrow> (Pending, s'))"

text \<open>
  \<^verbatim>\<open>try { m } finally { c }\<close>: the cleanup runs once the protected block has
  completed, normally or not; a block that never completes never reaches it. A
  cleanup that throws replaces the block's completion.
\<close>

definition tryFinally :: "('s, 'a) action \<Rightarrow> ('s, unit) action \<Rightarrow> ('s, 'a) action" where
  "tryFinally m c s =
     (case m s of
        (Pending, s') \<Rightarrow> (Pending, s')
      | (r, s') \<Rightarrow>
          (case c s' of
             (Normal u, s'') \<Rightarrow> (r, s'')
           | (Throw e, s'') \<Rightarrow> (Throw e, s'')
           | (Pending, s'') \<Rightarrow> (Pending, s'')))"

section \<open>JSON values as \<^verbatim>\<open>response.json()\<close> produces them\<close>

text \<open>
  Strings are byte strings in UTF-8; a JSON number is the double the parser produced,
  a rational or an infinity (\<^verbatim>\<open>1e999\<close>). An object is the list of its own
  properties after parsing, read with \<^const>\<open>map_of\<close>.
\<close>

datatype number = Finite rat | PosInfinity | NegInfinity

datatype json =
    JNull
  | JBool bool
  | JNum number
  | JStr string
  | JArr "json list"
  | JObj "(string \<times> json) list"

text \<open>The truth value JavaScript gives a value in \<^verbatim>\<open>if\<close>, \<^verbatim>\<open>!\<close> and \<^verbatim>\<open>&&\<close>.\<close>

fun truthy :: "json \<Rightarrow> bool" where
  "truthy JNull = False"
| "truthy (JBool b) = b"
| "truthy (JNum n) = (n \<noteq> Finite 0)"
| "truthy (JStr s) = (s \<noteq> [])"
| "truthy (JArr xs) = True"
| "truthy (JObj kvs) = True"

text \<open>A property read gives \<^verbatim>\<open>undefined\<close> (here \<^const>\<open>None\<close>) or a value.\<close>

fun truthy_opt :: "json option \<Rightarrow> bool" where
  "truthy_opt None = False"
| "truthy_opt (Some v) = truthy v"

text \<open>
  Whether the conversion of a value to a string (in a template literal, in
  \<^verbatim>\<open>link.href = url\<close>, in \<^verbatim>\<open>fetch(url)\<close>) completes. A parsed object with an own
  property \<^verbatim>\<open>toString\<close> has no callable \<^verbatim>\<open>toString\<close> and its \<^verbatim>\<open>valueOf\<close>
  gives no primitive, so the conversion throws a TypeError; an array is joined from the
  strings of its elements (\<^verbatim>\<open>null\<close> counts as empty); everything else converts.
\<close>

fun stringifies :: "json \<Rightarrow> bool" where
  "stringifies JNull = True"
| "stringifies (JBool b) = True"
| "stringifies (JNum n) = True"
| "stringifies (JStr s) = True"
| "stringifies (JArr xs) = (\<forall>x \<in> set xs. stringifies x)"
| "stringifies (JObj kvs) = (map_of kvs ''toString'' = None)"

text \<open>
  Whether the string of a value contains the character \<^verbatim>\<open><\<close>. The string of a
  number, a boolean or an object (\<^verbatim>\<open>[object Object]\<close>) never does.
\<close>

fun contains_lt :: "json \<Rightarrow> bool" where
  "contains_lt JNull = False"
| "contains_lt (JBool b) = False"
| "contains_lt (JNum n) = False"
| "contains_lt (JStr s) = (CHR ''<'' \<in> set s)"
| "contains_lt (JArr xs) = (\<exists>x \<in> set xs. contains_lt x)"
| "contains_lt (JObj kvs) = False"

text \<open>
  \<^verbatim>\<open>data.k\<close> for the property names the download flow reads (\<^verbatim>\<open>webhost\<close>,
  \<^verbatim>\<open>code\<close>, \<^verbatim>\<open>msg\<close>, \<^verbatim>\<open>go\<close>; none of them is inherited from a prototype):
  a read on \<^verbatim>\<open>null\<close> throws a TypeError, a read on a number, string, boolean or
  array gives \<^verbatim>\<open>undefined\<close>.
\<close>

fun get_member :: "json \<Rightarrow> string \<Rightarrow> error + json option" where
  "get_member JNull k = Inl TypeError"
| "get_member (JObj kvs) k = Inr (map_of kvs k)"
| "get_member (JBool b) k = Inr None"
| "get_member (JNum n) k = Inr None"
| "get_member (JStr s) k = Inr None"
| "get_member (JArr xs) k = Inr None"

definition prop_read :: "json \<Rightarrow> string \<Rightarrow> ('s, json option) action" where
  "prop_read v k s = (case get_member v k of Inl e \<Rightarrow> (Throw e, s) | Inr x \<Rightarrow> (Normal x, s))"

section \<open>The download manager (download.js)\<close>

subsection \<open>The page and the network\<close>

text \<open>What \<^verbatim>\<open>response.json()\<close> does with the body of a response.\<close>

datatype body = BodyHangs | BodyInvalid | BodyJson json

record response =
  status :: nat
  body :: body

text \<open>\<^verbatim>\<open>response.ok\<close>: the status is in the range 200 to 299.\<close>

definition ok :: "response \<Rightarrow> bool" where
  "ok r = (200 \<le> status r \<and> status r \<le> 299)"

datatype fetch_outcome = FetchHangs | FetchFails | FetchResponds response

text \<open>
  A request is the argument of \<^verbatim>\<open>fetch\<close>: for hop 1 the base URL with the
  \<^verbatim>\<open>URLSearchParams\<close> object appended, for hop 2 the value of \<^verbatim>\<open>webhost\<close> as it is.
\<close>

datatype request = ApiGet string "(string \<times> string) list" | UrlGet json

text \<open>The inline style the manager writes on a \<^verbatim>\<open>.download-btn\<close> element.\<close>

record button =
  btn_opacity :: string
  btn_pointerEvents :: string

text \<open>
  A notification element appended to the body: the message interpolated into its
  markup and the type of its class name. The timers that remove the element are not
  part of the model.
\<close>

record notification =
  message :: json
  kind :: string

text \<open>
  The page the manager runs in. \<open>network\<close> scripts what the coming calls of
  \<^verbatim>\<open>fetch\<close> will meet, in order (when it is used up a request stays pending);
  \<open>requests\<close>, \<open>downloads\<close> and \<open>console\<close> record what the manager did.
  \<open>markup_keeps_button\<close> is the browser's HTML parser on the notification template
  with a message that contains \<^verbatim>\<open><\<close> interpolated: whether the button of class
  \<^verbatim>\<open>notification__close\<close> is still an element of the result (it is for
  \<^verbatim>\<open><b>busy</b>\<close>, it is not for \<^verbatim>\<open><!--\<close> or \<^verbatim>\<open><textarea>\<close>, which swallow the
  rest of the template).
\<close>

record page =
  hostname :: string
  userAgent :: string
  buttons :: "button list"
  notifications :: "notification list"
  network :: "fetch_outcome list"
  requests :: "request list"
  downloads :: "json list"
  console :: "error list"
  markup_keeps_button :: "json \<Rightarrow> bool"

text \<open>Whether the argument of \<^verbatim>\<open>fetch\<close> converts to a string.\<close>

fun request_stringifies :: "request \<Rightarrow> bool" where
  "request_stringifies (ApiGet base params) = True"
| "request_stringifies (UrlGet v) = stringifies v"

text \<open>
  \<^verbatim>\<open>fetch\<close>: the call is recorded; an argument that does not convert to a string
  rejects with a TypeError before anything is sent; otherwise the promise does what
  the network does next: it stays pending, rejects, or resolves with a response.
\<close>

definition fetch :: "request \<Rightarrow> (page, response) action" where
  "fetch req w =
     (let w' = w\<lparr>requests := requests w @ [req]\<rparr> in
      if \<not> request_stringifies req then (Throw TypeError, w')
      else
        case network w' of
          [] \<Rightarrow> (Pending, w')
        | FetchHangs # rest \<Rightarrow> (Pending, w'\<lparr>network := rest\<rparr>)
        | FetchFails # rest \<Rightarrow> (Throw NetworkFailure, w'\<lparr>network := rest\<rparr>)
        | FetchResponds r # rest \<Rightarrow> (Normal r, w'\<lparr>network := rest\<rparr>))"

definition response_json :: "response \<Rightarrow> (page, json) action" where
  "response_json r w =
     (case body r of
        BodyHangs \<Rightarrow> (Pending, w)
      | BodyInvalid \<Rightarrow> (Throw JsonSyntaxError, w)
      | BodyJson v \<Rightarrow> (Normal v, w))"

subsection \<open>Constants\<close>

definition apiBaseUrl :: string where
  "apiBaseUrl = ''https://a.hkdownload.com/get.php''"

text \<open>The message of \<^verbatim>\<open>handleDownload\<close>'s catch block (download busy, error code 500).\<close>

definition busy_message :: string where
  "busy_message =
     [CHR 0xE4, CHR 0xB8, CHR 0x8B, CHR 0xE8, CHR 0xBD, CHR 0xBD, CHR 0xE7, CHR 0xB9,
      CHR 0x81, CHR 0xE5, CHR 0xBF, CHR 0x99, CHR 0xEF, CHR 0xBC, CHR 0x8C, CHR 0xE9,
      CHR 0x94, CHR 0x99, CHR 0xE8, CHR 0xAF, CHR 0xAF, CHR 0xE4, CHR 0xBB, CHR 0xA3,
      CHR 0xE7, CHR 0xA0, CHR 0x81, CHR 0x3A, CHR 0x35, CHR 0x30, CHR 0x30]"

text \<open>The message of \<^verbatim>\<open>handleOriginalDownload\<close>'s catch block (the site has expired).\<close>

definition expired_message :: string where
  "expired_message =
     [CHR 0xE6, CHR 0x8A, CHR 0xB1, CHR 0xE6, CHR 0xAD, CHR 0x89, CHR 0xEF, CHR 0xBC,
      CHR 0x8C, CHR 0xE7, CHR 0xBD, CHR 0x91, CHR 0xE7, CHR 0xAB, CHR 0x99, CHR 0xE8,
      CHR 0xBF, CHR 0x87, CHR 0xE6, CHR 0x9C, CHR 0x9F, CHR 0xE5, CHR 0x95, CHR 0xA6,
      CHR 0xEF, CHR 0xBC, CHR 0x8C, CHR 0xE8, CHR 0xB5, CHR 0xB6, CHR 0xE7, CHR 0xB4,
      CHR 0xA7, CHR 0xE7, CHR 0xBB, CHR 0xAD, CHR 0xE8, CHR 0xB4, CHR 0xB9]"

text \<open>The two messages \<^verbatim>\<open>getDownloadUrl\<close> throws (no valid / no final download address).\<close>

definition no_valid_address :: string where
  "no_valid_address =
     [CHR 0xE6, CHR 0x9C, CHR 0xAA, CHR 0xE8, CHR 0x8E, CHR 0xB7, CHR 0xE5, CHR 0x8F,
      CHR 0x96, CHR 0xE5, CHR 0x88, CHR 0xB0, CHR 0xE6, CHR 0x9C, CHR 0x89, CHR 0xE6,
      CHR 0x95, CHR 0x88, CHR 0xE7, CHR 0x9A, CHR 0x84, CHR 0xE4, CHR 0xB8, CHR 0x8B,
      CHR 0xE8, CHR 0xBD, CHR 0xBD, CHR 0xE5, CHR 0x9C, CHR 0xB0, CHR 0xE5, CHR 0x9D,
      CHR 0x80]"

definition no_final_address :: string where
  "no_final_address =
     [CHR 0xE6, CHR 0x9C, CHR 0xAA, CHR 0xE8, CHR 0x8E, CHR 0xB7, CHR 0xE5, CHR 0x8F,
      CHR 0x96, CHR 0xE5, CHR 0x88, CHR 0xB0, CHR 0xE6, CHR 0x9C, CHR 0x80, CHR 0xE7,
      CHR 0xBB, CHR 0x88, CHR 0xE4, CHR 0xB8, CHR 0x8B, CHR 0xE8, CHR 0xBD, CHR 0xBD,
      CHR 0xE5, CHR 0x9C, CHR 0xB0, CHR 0xE5, CHR 0x9D, CHR 0x80]"

text \<open>The message of \<^verbatim>\<open>downloadFile\<close> (the download has started).\<close>

definition started_message :: string where
  "started_message =
     [CHR 0xE4, CHR 0xB8, CHR 0x8B, CHR 0xE8, CHR 0xBD, CHR 0xBD, CHR 0xE5, CHR 0xB7,
      CHR 0xB2, CHR 0xE5, CHR 0xBC, CHR 0x80, CHR 0xE5, CHR 0xA7, CHR 0x8B]"

subsection \<open>Notifications and the loading state\<close>

text \<open>
  \<^verbatim>\<open>showNotification\<close> (lines 188 to 227). The template literal converts the message
  to a string and throws if that fails, before the element is added. The element is
  then filled through \<^verbatim>\<open>innerHTML\<close> and appended to the body. Last, the close button
  is looked up in the element and a listener is added to it: a message without
  \<^verbatim>\<open><\<close> is text and leaves the template's button in place; for a message with
  \<^verbatim>\<open><\<close> the parser decides, and when the button is gone
  \<^verbatim>\<open>closeBtn.addEventListener\<close> throws a TypeError, the element already appended.
\<close>

definition close_button_found :: "page \<Rightarrow> json \<Rightarrow> bool" where
  "close_button_found w msg = (\<not> contains_lt msg \<or> markup_keeps_button w msg)"

definition showNotification :: "json \<Rightarrow> string \<Rightarrow> (page, unit) action" where
  "showNotification msg type w =
     (if \<not> stringifies msg then (Throw TypeError, w)
      else
        (let w' = w\<lparr>notifications := notifications w @ [\<lparr>message = msg, kind = type\<rparr>]\<rparr> in
         if close_button_found w msg then (Normal (), w') else (Throw TypeError, w')))"

definition showError :: "json \<Rightarrow> (page, unit) action" where
  "showError msg = showNotification msg ''error''"

definition showSuccess :: "json \<Rightarrow> (page, unit) action" where
  "showSuccess msg = showNotification msg ''success''"

definition showLoadingState :: "(page, unit) action" where
  "showLoadingState w =
     (Normal (),
      w\<lparr>buttons := map (\<lambda>b. b\<lparr>btn_opacity := ''0.6'', btn_pointerEvents := ''none''\<rparr>) (buttons w)\<rparr>)"

definition hideLoadingState :: "(page, unit) action" where
  "hideLoadingState w =
     (Normal (),
      w\<lparr>buttons := map (\<lambda>b. b\<lparr>btn_opacity := ''1'', btn_pointerEvents := ''auto''\<rparr>) (buttons w)\<rparr>)"

definition console_error :: "error \<Rightarrow> (page, unit) action" where
  "console_error e w = (Normal (), w\<lparr>console := console w @ [e]\<rparr>)"

text \<open>
  \<^verbatim>\<open>downloadFile\<close>: \<^verbatim>\<open>link.href = url\<close> converts the URL to a string and throws
  if that fails; then the hidden anchor is added, clicked and removed, and the success
  notification is shown.
\<close>

definition downloadFile :: "json \<Rightarrow> (page, unit) action" where
  "downloadFile url =
     (if \<not> stringifies url then throwErr TypeError
      else
        andThen (\<lambda>w. (Normal (), w\<lparr>downloads := downloads w @ [url]\<rparr>))
          (\<lambda>u. showSuccess (JStr started_message)))"

subsection \<open>Device detection\<close>

text \<open>
  \<^verbatim>\<open>/Mobile|Android|iPhone|iPad/i.test(navigator.userAgent)\<close>: the flag \<^verbatim>\<open>i\<close>
  folds the case of ASCII letters only, and a byte of a character beyond ASCII never
  equals a letter.
\<close>

definition lower :: "char \<Rightarrow> char" where
  "lower c =
     (let n = (of_char c :: nat) in if 65 \<le> n \<and> n \<le> 90 then char_of (n + 32) else c)"

fun matches_here :: "string \<Rightarrow> string \<Rightarrow> bool" where
  "matches_here [] cs = True"
| "matches_here (p # ps) [] = False"
| "matches_here (p # ps) (c # cs) = (lower p = lower c \<and> matches_here ps cs)"

fun matches_somewhere :: "string \<Rightarrow> string \<Rightarrow> bool" where
  "matches_somewhere p [] = matches_here p []"
| "matches_somewhere p (c # cs) = (matches_here p (c # cs) \<or> matches_somewhere p cs)"

definition detectDeviceType :: "string \<Rightarrow> string" where
  "detectDeviceType ua =
     (if matches_somewhere ''Mobile'' ua \<or> matches_somewhere ''Android'' ua
         \<or> matches_somewhere ''iPhone'' ua \<or> matches_somewhere ''iPad'' ua
      then ''mobile'' else ''pc'')"

subsection \<open>The two hops\<close>

text \<open>
  The block that follows a missing \<^verbatim>\<open>webhost\<close> (lines 102 to 106) and a missing
  \<^verbatim>\<open>go\<close> (lines 118 to 122):
  \<^verbatim>\<open>if (data.code && data.msg) { this.showError(data.msg); return null; }
  throw new Error(text);\<close>
\<close>

definition signalled_or_throw :: "json \<Rightarrow> string \<Rightarrow> (page, json option) action" where
  "signalled_or_throw data text =
     andThen (prop_read data ''code'') (\<lambda>code.
       if truthy_opt code then
         andThen (prop_read data ''msg'') (\<lambda>msg.
           case msg of
             Some m \<Rightarrow>
               if truthy m then andThen (showError m) (\<lambda>u. ret None)
               else throwErr (ResolutionError text)
           | None \<Rightarrow> throwErr (ResolutionError text))
       else throwErr (ResolutionError text))"

text \<open>The second API call and what follows it (lines 109 to 125).\<close>

definition second_call :: "json \<Rightarrow> (page, json option) action" where
  "second_call webhost =
     andThen (fetch (UrlGet webhost)) (\<lambda>response2.
       if \<not> ok response2 then throwErr (HttpError (status response2))
       else
         andThen (response_json response2) (\<lambda>data2.
           andThen (prop_read data2 ''go'') (\<lambda>go.
             case go of
               Some g \<Rightarrow> if truthy g then ret (Some g) else signalled_or_throw data2 no_final_address
             | None \<Rightarrow> signalled_or_throw data2 no_final_address)))"

definition getDownloadUrl :: "string \<Rightarrow> (page, json option) action" where
  "getDownloadUrl deviceType w =
     (let siteDomain = hostname w;
          params = [(''type'', deviceType), (''site'', siteDomain)]
      in
      andThen (fetch (ApiGet apiBaseUrl params)) (\<lambda>response1.
        if \<not> ok response1 then throwErr (HttpError (status response1))
        else
          andThen (response_json response1) (\<lambda>data1.
            andThen (prop_read data1 ''webhost'') (\<lambda>webhost.
              case webhost of
                Some h \<Rightarrow> if truthy h then second_call h else signalled_or_throw data1 no_valid_address
              | None \<Rightarrow> signalled_or_throw data1 no_valid_address))) w)"

subsection \<open>The entry points\<close>

text \<open>\<^verbatim>\<open>if (downloadUrl) { this.downloadFile(downloadUrl); }\<close>\<close>

definition download_if_url :: "json option \<Rightarrow> (page, unit) action" where
  "download_if_url downloadUrl =
     (case downloadUrl of
        Some u \<Rightarrow> if truthy u then downloadFile u else ret ()
      | None \<Rightarrow> ret ())"

definition handleDownload :: "string \<Rightarrow> (page, unit) action" where
  "handleDownload deviceType =
     tryFinally
       (tryCatch
          (andThen showLoadingState (\<lambda>u.
             andThen (getDownloadUrl deviceType) download_if_url))
          (\<lambda>error. andThen (console_error error) (\<lambda>u. showError (JStr busy_message))))
       hideLoadingState"

definition handleOriginalDownload :: "(page, unit) action" where
  "handleOriginalDownload =
     tryFinally
       (tryCatch
          (andThen showLoadingState (\<lambda>u.
             andThen (\<lambda>w. (Normal (detectDeviceType (userAgent w)), w)) (\<lambda>deviceType.
               andThen (getDownloadUrl deviceType) download_if_url)))
          (\<lambda>error. andThen (console_error error) (\<lambda>u. showError (JStr expired_message))))
       hideLoadingState"

section \<open>The single page manager (spa.js)\<close>

subsection \<open>The document and the session history\<close>

text \<open>
  An element that \<^verbatim>\<open>showSection\<close> can reach: it has the class \<^verbatim>\<open>section\<close> or
  an id (or both). The inline opacity and transform are the ones the manager writes.
\<close>

record element =
  el_id :: "string option"
  is_section :: bool
  el_active :: bool
  el_opacity :: string
  el_transform :: string

text \<open>
  An element that \<^verbatim>\<open>updateActiveNav\<close> can reach: it has the class
  \<^verbatim>\<open>nav__link\<close> or a \<^verbatim>\<open>data-section\<close> attribute (or both).
\<close>

record link =
  is_nav_link :: bool
  data_section :: "string option"
  link_active :: bool

text \<open>
  An entry of the session history: the section of its state object (\<^const>\<open>None\<close>
  for the state \<^verbatim>\<open>null\<close> of an entry nobody pushed) and \<^verbatim>\<open>location.hash\<close>
  at that entry (empty, or the fragment after a \<^verbatim>\<open>#\<close>).
\<close>

record history_entry =
  entry_state :: "string option"
  entry_hash :: string

text \<open>
  The manager's field \<open>currentSection\<close>, the document (in document order), the
  session history of this document around the current entry (\<open>past\<close> and
  \<open>future\<close> nearest first), and the sections whose 100 ms reveal timer is waiting.
\<close>

record spa =
  currentSection :: string
  elements :: "element list"
  links :: "link list"
  past :: "history_entry list"
  current :: history_entry
  future :: "history_entry list"
  timers :: "string list"

definition sections :: "string list" where
  "sections = [''home'', ''features'', ''faq'', ''download'']"

text \<open>\<^verbatim>\<open>document.getElementById\<close> and \<^verbatim>\<open>document.querySelector\<close> give the first
  element in document order; the update below changes that element only.\<close>

fun update_first :: "('a \<Rightarrow> bool) \<Rightarrow> ('a \<Rightarrow> 'a) \<Rightarrow> 'a list \<Rightarrow> 'a list" where
  "update_first P f [] = []"
| "update_first P f (x # xs) = (if P x then f x # xs else x # update_first P f xs)"

subsection \<open>Showing a section\<close>

definition hide_section :: "bool \<Rightarrow> element \<Rightarrow> element" where
  "hide_section animate e =
     (if is_section e then
        (if animate
         then e\<lparr>el_active := False, el_opacity := ''0'', el_transform := ''translateY(20px)''\<rparr>
         else e\<lparr>el_active := False\<rparr>)
      else e)"

definition reveal :: "element \<Rightarrow> element" where
  "reveal e = e\<lparr>el_opacity := ''1'', el_transform := ''translateY(0)''\<rparr>"

definition showSection :: "string \<Rightarrow> bool \<Rightarrow> spa \<Rightarrow> spa" where
  "showSection section animate s =
     (let hidden = map (hide_section animate) (elements s);
          found = (\<exists>e \<in> set hidden. el_id e = Some section);
          shown = update_first (\<lambda>e. el_id e = Some section)
                    (\<lambda>e. if animate then e\<lparr>el_active := True\<rparr> else reveal (e\<lparr>el_active := True\<rparr>))
                    hidden
      in s\<lparr>elements := shown,
           timers := (if found \<and> animate then timers s @ [section] else timers s),
           currentSection := section\<rparr>)"

text \<open>The callback of \<^verbatim>\<open>setTimeout(..., 100)\<close> in \<^verbatim>\<open>showSection\<close>.\<close>

definition fire_timer :: "spa \<Rightarrow> spa" where
  "fire_timer s =
     (case timers s of
        [] \<Rightarrow> s
      | t # ts \<Rightarrow>
          s\<lparr>elements := update_first (\<lambda>e. el_id e = Some t) reveal (elements s), timers := ts\<rparr>)"

subsection \<open>The URL and the navigation links\<close>

text \<open>
  \<^verbatim>\<open>updateURL\<close>: \<^verbatim>\<open>history.pushState({ section }, '', url)\<close> with the fragment
  of the URL set to the section. A push drops the entries ahead of the current one.
  The identifiers of the fixed set need no escaping in a fragment.
\<close>

definition updateURL :: "string \<Rightarrow> spa \<Rightarrow> spa" where
  "updateURL section s =
     s\<lparr>past := current s # past s,
       current := \<lparr>entry_state = Some section, entry_hash = CHR ''#'' # section\<rparr>,
       future := []\<rparr>"

definition updateActiveNav :: "string \<Rightarrow> spa \<Rightarrow> spa" where
  "updateActiveNav section s =
     s\<lparr>links :=
         update_first (\<lambda>l. data_section l = Some section) (\<lambda>l. l\<lparr>link_active := True\<rparr>)
           (map (\<lambda>l. if is_nav_link l then l\<lparr>link_active := False\<rparr> else l) (links s))\<rparr>"

definition navigateToSection :: "string \<Rightarrow> spa \<Rightarrow> spa" where
  "navigateToSection section s =
     (if section \<in> set sections
      then updateActiveNav section (updateURL section (showSection section True s))
      else s)"

text \<open>\<^verbatim>\<open>window.location.hash\<close> and \<^verbatim>\<open>history.length\<close> as a script reads them.\<close>

definition location_hash :: "spa \<Rightarrow> string" where
  "location_hash s = entry_hash (current s)"

definition history_length :: "spa \<Rightarrow> nat" where
  "history_length s = length (past s) + 1 + length (future s)"

subsection \<open>The listeners of \<^verbatim>\<open>bindEvents\<close>\<close>

text \<open>A click on a navigation link; the argument is what
  \<^verbatim>\<open>e.target.getAttribute('data-section')\<close> gives (\<^verbatim>\<open>null\<close> on a child of the link).\<close>

definition on_nav_link_click :: "string option \<Rightarrow> spa \<Rightarrow> spa" where
  "on_nav_link_click attr s = (case attr of None \<Rightarrow> s | Some section \<Rightarrow> navigateToSection section s)"

text \<open>The \<^verbatim>\<open>popstate\<close> listener; the argument is the section of \<^verbatim>\<open>e.state\<close>.\<close>

definition on_popstate :: "string option \<Rightarrow> spa \<Rightarrow> spa" where
  "on_popstate st s =
     (case st of
        None \<Rightarrow> s
      | Some section \<Rightarrow> if section \<noteq> [] then showSection section False s else s)"

text \<open>A click on an anchor whose \<^verbatim>\<open>href\<close> starts with \<^verbatim>\<open>#\<close>.\<close>

definition on_anchor_click :: "string \<Rightarrow> spa \<Rightarrow> spa" where
  "on_anchor_click href s =
     (if href = ''#'' then s
      else (let targetId = drop 1 href in
            if targetId \<in> set sections then navigateToSection targetId s else s))"

text \<open>
  The browser's Back and Forward between entries of this document: the current entry
  moves, no entry is added or dropped, and \<^verbatim>\<open>popstate\<close> fires with the state of
  the entry arrived at.
\<close>

definition browser_back :: "spa \<Rightarrow> spa" where
  "browser_back s =
     (case past s of
        [] \<Rightarrow> s
      | p # ps \<Rightarrow>
          on_popstate (entry_state p) (s\<lparr>past := ps, current := p, future := current s # future s\<rparr>))"

definition browser_forward :: "spa \<Rightarrow> spa" where
  "browser_forward s =
     (case future s of
        [] \<Rightarrow> s
      | n # ns \<Rightarrow>
          on_popstate (entry_state n) (s\<lparr>past := current s # past s, current := n, future := ns\<rparr>))"

subsection \<open>The initial route\<close>

definition handleInitialRoute :: "spa \<Rightarrow> spa" where
  "handleInitialRoute s =
     (let hash = drop 1 (location_hash s) in
      if hash \<noteq> [] \<and> hash \<in> set sections
      then updateActiveNav hash (showSection hash False s)
      else updateActiveNav ''home'' s)"

text \<open>
  The constructor and \<^verbatim>\<open>init\<close> on a freshly loaded document: the markup's
  elements and links, and one history entry, with no state, at the URL's fragment.
\<close>

definition page_load :: "element list \<Rightarrow> link list \<Rightarrow> string \<Rightarrow> spa" where
  "page_load els lks hash =
     handleInitialRoute
       \<lparr>currentSection = ''home'', elements = els, links = lks, past = [],
        current = \<lparr>entry_state = None, entry_hash = hash\<rparr>, future = [], timers = []\<rparr>"

text \<open>The ids of the elements that carry the active marker, in document order.\<close>

definition active_sections :: "spa \<Rightarrow> string option list" where
  "active_sections s = map el_id (filter el_active (elements s))"

subsection \<open>The FAQ accordion\<close>

text \<open>
  A \<^verbatim>\<open>.faq-item\<close>: whether it holds a question and an answer element, its class
  \<^verbatim>\<open>faq-item--open\<close>, and the answer's inline \<^verbatim>\<open>max-height\<close> and
  \<^verbatim>\<open>scrollHeight\<close>.
\<close>

record faq_item =
  has_question :: bool
  has_answer :: bool
  faq_open :: bool
  answer_maxHeight :: string
  answer_scrollHeight :: nat


definition close_item :: "faq_item \<Rightarrow> faq_item" where
  "close_item it =
     (if has_answer it then it\<lparr>faq_open := False, answer_maxHeight := ''0''\<rparr>
      else it\<lparr>faq_open := False\<rparr>)"




section \<open>The navigation manager (navigation.js)\<close>

text \<open>
  The class lists of \<^verbatim>\<open>#nav-toggle\<close>, \<^verbatim>\<open>#main-nav\<close> and \<^verbatim>\<open>.header\<close>
  (\<^const>\<open>None\<close> when the document has no such element), the manager's field
  \<open>isNavOpen\<close>, the inline \<^verbatim>\<open>overflow\<close> of the body, and \<open>lastScrollTop\<close> of
  the scroll listener.
\<close>

record nav_page =
  navToggle :: "string set option"
  nav :: "string set option"
  header :: "string set option"
  isNavOpen :: bool
  body_overflow :: string
  lastScrollTop :: rat

text \<open>\<^verbatim>\<open>this.navToggle.classList\<close> and \<^verbatim>\<open>this.nav.classList\<close>: a TypeError when
  the element is \<^verbatim>\<open>null\<close>.\<close>

definition navToggle_classList :: "(string set \<Rightarrow> string set) \<Rightarrow> (nav_page, unit) action" where
  "navToggle_classList f s =
     (case navToggle s of
        None \<Rightarrow> (Throw TypeError, s)
      | Some cs \<Rightarrow> (Normal (), s\<lparr>navToggle := Some (f cs)\<rparr>))"

definition nav_classList :: "(string set \<Rightarrow> string set) \<Rightarrow> (nav_page, unit) action" where
  "nav_classList f s =
     (case nav s of
        None \<Rightarrow> (Throw TypeError, s)
      | Some cs \<Rightarrow> (Normal (), s\<lparr>nav := Some (f cs)\<rparr>))"

definition openNavigation :: "(nav_page, unit) action" where
  "openNavigation =
     andThen (navToggle_classList (insert ''active'')) (\<lambda>u.
     andThen (nav_classList (\<lambda>cs. cs - {''hidden''})) (\<lambda>u.
     andThen (\<lambda>s. (Normal (), s\<lparr>isNavOpen := True\<rparr>)) (\<lambda>u.
     andThen (\<lambda>s. (Normal (), s\<lparr>body_overflow := ''hidden''\<rparr>)) (\<lambda>u.
     nav_classList (insert ''nav--open'')))))"

definition closeNavigation :: "(nav_page, unit) action" where
  "closeNavigation =
     andThen (navToggle_classList (\<lambda>cs. cs - {''active''})) (\<lambda>u.
     andThen (nav_classList (insert ''hidden'')) (\<lambda>u.
     andThen (\<lambda>s. (Normal (), s\<lparr>isNavOpen := False\<rparr>)) (\<lambda>u.
     andThen (\<lambda>s. (Normal (), s\<lparr>body_overflow := []\<rparr>)) (\<lambda>u.
     nav_classList (\<lambda>cs. cs - {''nav--open''})))))"

definition toggleNavigation :: "(nav_page, unit) action" where
  "toggleNavigation s = (if isNavOpen s then closeNavigation s else openNavigation s)"

subsection \<open>The listeners\<close>

text \<open>
  What the page can receive: a click on the toggle; a click anywhere, with whether
  \<^verbatim>\<open>nav\<close> and \<^verbatim>\<open>navToggle\<close> contain the target; a key; a resize to an inner
  width; a click on an anchor with \<^verbatim>\<open>href="#..."\<close>, with whether the target
  element exists; a scroll to an offset.
\<close>

datatype nav_event =
    ToggleClick
  | DocumentClick bool bool
  | KeyDown string
  | Resize nat
  | AnchorClick bool
  | Scroll rat

definition header_classList :: "(string set \<Rightarrow> string set) \<Rightarrow> nav_page \<Rightarrow> nav_page" where
  "header_classList f s = (case header s of None \<Rightarrow> s | Some cs \<Rightarrow> s\<lparr>header := Some (f cs)\<rparr>)"

definition on_scroll :: "rat \<Rightarrow> nav_page \<Rightarrow> nav_page" where
  "on_scroll scrollTop s =
     (let s1 = (if scrollTop > 50 then header_classList (insert ''header--scrolled'') s
                else header_classList (\<lambda>cs. cs - {''header--scrolled''}) s);
          s2 = (if scrollTop > lastScrollTop s1 \<and> scrollTop > 100
                then header_classList (insert ''header--hidden'') s1
                else header_classList (\<lambda>cs. cs - {''header--hidden''}) s1)
      in s2\<lparr>lastScrollTop := scrollTop\<rparr>)"

definition dispatch :: "nav_event \<Rightarrow> (nav_page, unit) action" where
  "dispatch ev s =
     (case ev of
        ToggleClick \<Rightarrow> if navToggle s = None then (Normal (), s) else toggleNavigation s
      | DocumentClick in_nav in_toggle \<Rightarrow>
          if \<not> isNavOpen s then (Normal (), s)
          else if nav s = None then (Throw TypeError, s)
          else if in_nav then (Normal (), s)
          else if navToggle s = None then (Throw TypeError, s)
          else if in_toggle then (Normal (), s)
          else closeNavigation s
      | KeyDown key \<Rightarrow> if key = ''Escape'' \<and> isNavOpen s then closeNavigation s else (Normal (), s)
      | Resize innerWidth \<Rightarrow>
          if innerWidth \<ge> 768 \<and> isNavOpen s then closeNavigation s else (Normal (), s)
      | AnchorClick target_exists \<Rightarrow>
          if target_exists \<and> isNavOpen s then closeNavigation s else (Normal (), s)
      | Scroll scrollTop \<Rightarrow> (Normal (), on_scroll scrollTop s))"

text \<open>The state after a sequence of events; a listener that throws leaves the state
  as it was at the throw, and the next event is handled from there.\<close>

fun run_events :: "nav_event list \<Rightarrow> nav_page \<Rightarrow> nav_page" where
  "run_events [] s = s"
| "run_events (ev # evs) s = run_events evs (snd (dispatch ev s))"

text \<open>
  The panel is visible when it does not carry \<^verbatim>\<open>hidden\<close> and carries
  \<^verbatim>\<open>nav--open\<close>; the page scroll is locked when the body's overflow is
  \<^verbatim>\<open>hidden\<close>.
\<close>

definition panel_visible :: "nav_page \<Rightarrow> bool" where
  "panel_visible s = (case nav s of None \<Rightarrow> False | Some cs \<Rightarrow> ''hidden'' \<notin> cs \<and> ''nav--open'' \<in> cs)"

definition scroll_locked :: "nav_page \<Rightarrow> bool" where
  "scroll_locked s = (body_overflow s = ''hidden'')"

definition nav_invariant :: "nav_page \<Rightarrow> bool" where
  "nav_invariant s = (isNavOpen s = (panel_visible s \<and> scroll_locked s))"

section \<open>Properties and example inputs\<close>

subsection \<open>The download flow\<close>

text \<open>
  The summary of \<^const>\<open>getDownloadUrl\<close> run from \<open>w\<close>: it never touches the
  buttons, the downloads, the console or the parser; when it returns \<^verbatim>\<open>null\<close> it has
  added exactly one error notification, with a truthy message; a URL it returns is
  truthy and no notification was added; when it throws or stays pending it has added
  no notification, but for the TypeError of a notification whose close button is gone,
  which is thrown with that one notification added.
\<close>

definition resolution_ok :: "page \<Rightarrow> json option completion \<times> page \<Rightarrow> bool" where
  "resolution_ok w r =
     (buttons (snd r) = buttons w \<and> downloads (snd r) = downloads w \<and>
      console (snd r) = console w \<and> markup_keeps_button (snd r) = markup_keeps_button w \<and>
      (case fst r of
         Normal None \<Rightarrow>
           (\<exists>m. truthy m \<and>
              notifications (snd r) = notifications w @ [\<lparr>message = m, kind = ''error''\<rparr>])
       | Normal (Some g) \<Rightarrow> truthy g \<and> notifications (snd r) = notifications w
       | Throw e \<Rightarrow>
           notifications (snd r) = notifications w \<or>
           (e = TypeError \<and>
            (\<exists>m. truthy m \<and>
               notifications (snd r) = notifications w @ [\<lparr>message = m, kind = ''error''\<rparr>]))
       | Pending \<Rightarrow> notifications (snd r) = notifications w))"

text \<open>
  A network that answers: the request is not left pending, and the body of a response
  arrives. The resolution issues at most two requests, so a network is responsive when
  its next two outcomes are answers.
\<close>

fun answers :: "fetch_outcome \<Rightarrow> bool" where
  "answers FetchHangs = False"
| "answers FetchFails = True"
| "answers (FetchResponds r) = (body r \<noteq> BodyHangs)"

fun responsive :: "fetch_outcome list \<Rightarrow> bool" where
  "responsive (o1 # o2 # rest) = (answers o1 \<and> answers o2)"
| "responsive [o1] = False"
| "responsive [] = False"

text \<open>The buttons as \<^verbatim>\<open>showLoadingState\<close> and \<^verbatim>\<open>hideLoadingState\<close> leave them.\<close>

definition dimmed :: "button list \<Rightarrow> button list" where
  "dimmed bs = map (\<lambda>b. b\<lparr>btn_opacity := ''0.6'', btn_pointerEvents := ''none''\<rparr>) bs"

definition restored :: "button list \<Rightarrow> button list" where
  "restored bs = map (\<lambda>b. b\<lparr>btn_opacity := ''1'', btn_pointerEvents := ''auto''\<rparr>) bs"

text \<open>The busy state of the download controls: every \<^verbatim>\<open>.download-btn\<close> is dimmed and
  takes no pointer events; the idle state: every one is back to full opacity and takes
  them again.\<close>

definition disabled :: "button \<Rightarrow> bool" where
  "disabled b = (btn_opacity b = ''0.6'' \<and> btn_pointerEvents b = ''none'')"

definition enabled :: "button \<Rightarrow> bool" where
  "enabled b = (btn_opacity b = ''1'' \<and> btn_pointerEvents b = ''auto'')"

definition busy :: "page \<Rightarrow> bool" where
  "busy w = list_all disabled (buttons w)"

definition idle :: "page \<Rightarrow> bool" where
  "idle w = list_all enabled (buttons w)"

definition error_note :: "json \<Rightarrow> notification" where
  "error_note m = \<lparr>message = m, kind = ''error''\<rparr>"

text \<open>The page as the catch block of an entry point leaves it: the error logged on the
  console and the entry point's fixed message shown.\<close>

text \<open>Whether \<^verbatim>\<open>downloadFile\<close> is called on what the resolution returned and throws:
  the URL is truthy and does not convert to a string.\<close>

definition download_throws :: "json option \<Rightarrow> bool" where
  "download_throws v = (case v of Some u \<Rightarrow> truthy u \<and> \<not> stringifies u | None \<Rightarrow> False)"

definition caught :: "error \<Rightarrow> string \<Rightarrow> page \<Rightarrow> page" where
  "caught e msg w =
     w\<lparr>console := console w @ [e], notifications := notifications w @ [error_note (JStr msg)]\<rparr>"

text \<open>What an entry point whose catch block shows \<open>msg\<close> returns once its resolution,
  run from the page \<^verbatim>\<open>showLoadingState\<close> left, has given \<open>(c, w2)\<close>.\<close>

definition flow_result ::
  "string \<Rightarrow> json option completion \<Rightarrow> page \<Rightarrow> unit completion \<times> page" where
  "flow_result msg c w2 =
     (case c of
        Pending \<Rightarrow> (Pending, w2)
      | Throw e \<Rightarrow> hideLoadingState (caught e msg w2)
      | Normal v \<Rightarrow>
          if download_throws v then hideLoadingState (caught TypeError msg w2)
          else hideLoadingState (snd (download_if_url v w2)))"

text \<open>A page with two download buttons, on an Android phone, that will meet the given
  network outcomes, in a browser where none of the messages with \<^verbatim>\<open><\<close> that the
  examples use keeps the close button.\<close>

definition example_page :: "fetch_outcome list \<Rightarrow> page" where
  "example_page net =
     \<lparr>hostname = ''sigua.io'',
      userAgent = ''Mozilla/5.0 (Linux; Android 14) Mobile'',
      buttons = [\<lparr>btn_opacity = ''1'', btn_pointerEvents = ''auto''\<rparr>,
                 \<lparr>btn_opacity = [], btn_pointerEvents = []\<rparr>],
      notifications = [], network = net, requests = [], downloads = [], console = [],
      markup_keeps_button = (\<lambda>m. False)\<rparr>"

text \<open>A response with status 200 and the given JSON body.\<close>

definition ok_response :: "json \<Rightarrow> fetch_outcome" where
  "ok_response v = FetchResponds \<lparr>status = 200, body = BodyJson v\<rparr>"

subsection \<open>The single page manager\<close>

text \<open>A document with the four sections and their links. In \<open>example_elements\<close> the
  markup marks the home section active; in \<open>unmarked_elements\<close> it marks none.\<close>

definition section_element :: "string \<Rightarrow> bool \<Rightarrow> element" where
  "section_element name act =
     \<lparr>el_id = Some name, is_section = True, el_active = act, el_opacity = [], el_transform = []\<rparr>"

definition example_elements :: "element list" where
  "example_elements =
     [section_element ''home'' True, section_element ''features'' False,
      section_element ''faq'' False, section_element ''download'' False]"

definition unmarked_elements :: "element list" where
  "unmarked_elements =
     [section_element ''home'' False, section_element ''features'' False,
      section_element ''faq'' False, section_element ''download'' False]"

definition nav_link :: "string \<Rightarrow> link" where
  "nav_link name = \<lparr>is_nav_link = True, data_section = Some name, link_active = False\<rparr>"

definition example_links :: "link list" where
  "example_links = [nav_link ''home'', nav_link ''features'', nav_link ''faq'', nav_link ''download'']"



subsection \<open>The navigation manager\<close>

text \<open>The part of the page the navigation state is about.\<close>

definition nav_view :: "nav_page \<Rightarrow> bool \<times> string set option \<times> string set option \<times> string" where
  "nav_view s = (isNavOpen s, nav s, navToggle s, body_overflow s)"

definition example_nav_page :: nav_page where
  "example_nav_page =
     \<lparr>navToggle = Some {''nav-toggle''}, nav = Some {''nav'', ''hidden''},
      header = Some {''header''}, isNavOpen = False, body_overflow = [], lastScrollTop = 0\<rparr>"

section \<open>Verification of the download flow\<close>

subsection \<open>What a resolution leaves behind\<close>

lemma fetch_frame:
  "buttons (snd (fetch r w)) = buttons w"
  "notifications (snd (fetch r w)) = notifications w"
  "downloads (snd (fetch r w)) = downloads w"
  "console (snd (fetch r w)) = console w"
  "hostname (snd (fetch r w)) = hostname w"
  "userAgent (snd (fetch r w)) = userAgent w"
  "requests (snd (fetch r w)) = requests w @ [r]"
  "markup_keeps_button (snd (fetch r w)) = markup_keeps_button w"
  by (simp_all add: fetch_def Let_def split: list.splits fetch_outcome.splits)

lemma signalled_resolution_ok: "resolution_ok w (signalled_or_throw d t w)"
  by (auto simp: resolution_ok_def signalled_or_throw_def andThen_def ret_def throwErr_def
      prop_read_def showError_def showNotification_def Let_def
      split: sum.splits option.splits)

lemma signalled_requests: "requests (snd (signalled_or_throw d t w)) = requests w"
  by (auto simp: signalled_or_throw_def andThen_def ret_def throwErr_def
      prop_read_def showError_def showNotification_def Let_def
      split: sum.splits option.splits)

lemma resolution_ok_transfer:
  "buttons w1 = buttons w \<Longrightarrow> downloads w1 = downloads w \<Longrightarrow> console w1 = console w \<Longrightarrow>
   notifications w1 = notifications w \<Longrightarrow>
   markup_keeps_button w1 = markup_keeps_button w \<Longrightarrow> resolution_ok w1 r \<Longrightarrow> resolution_ok w r"
  by (simp add: resolution_ok_def split: completion.splits option.splits)

lemma resolution_ok_simple:
  "resolution_ok w (Throw e, w)"
  "resolution_ok w (Pending, w)"
  "truthy g \<Longrightarrow> resolution_ok w (Normal (Some g), w)"
  by (simp_all add: resolution_ok_def)

lemma second_tail_resolution_ok:
  "resolution_ok w
     (andThen (response_json r) (\<lambda>data.
        andThen (prop_read data k) (\<lambda>x.
          case x of
            Some g \<Rightarrow> if truthy g then ret (Some g) else signalled_or_throw data t
          | None \<Rightarrow> signalled_or_throw data t)) w)"
  by (auto simp: andThen_def ret_def prop_read_def response_json_def
      resolution_ok_simple signalled_resolution_ok
      split: body.splits sum.splits option.splits)

lemma second_tail_requests:
  "requests (snd
     (andThen (response_json r) (\<lambda>data.
        andThen (prop_read data k) (\<lambda>x.
          case x of
            Some g \<Rightarrow> if truthy g then ret (Some g) else signalled_or_throw data t
          | None \<Rightarrow> signalled_or_throw data t)) w)) = requests w"
  by (auto simp: andThen_def ret_def prop_read_def response_json_def signalled_requests
      split: body.splits sum.splits option.splits)

lemma second_call_unfold:
  "fetch (UrlGet h) w = (c, w1) \<Longrightarrow>
   second_call h w =
     (case c of
        Normal r \<Rightarrow>
          if \<not> ok r then (Throw (HttpError (status r)), w1)
          else andThen (response_json r) (\<lambda>data.
                 andThen (prop_read data ''go'') (\<lambda>x.
                   case x of
                     Some g \<Rightarrow> if truthy g then ret (Some g)
                               else signalled_or_throw data no_final_address
                   | None \<Rightarrow> signalled_or_throw data no_final_address)) w1
      | Throw e \<Rightarrow> (Throw e, w1)
      | Pending \<Rightarrow> (Pending, w1))"
  by (simp add: second_call_def andThen_def throwErr_def split: completion.splits)

lemma second_resolution_ok: "resolution_ok w (second_call h w)"
proof (cases "fetch (UrlGet h) w")
  case (Pair c w1)
  have frame: "buttons w1 = buttons w" "downloads w1 = downloads w" "console w1 = console w"
    "notifications w1 = notifications w" "markup_keeps_button w1 = markup_keeps_button w"
    using fetch_frame [of "UrlGet h" w] Pair by simp_all
  have "resolution_ok w1 (second_call h w)"
    by (simp add: second_call_unfold [OF Pair] resolution_ok_simple second_tail_resolution_ok
        split: completion.splits)
  then show ?thesis
    using frame by (rule resolution_ok_transfer [rotated 5])
qed

lemma second_requests: "requests (snd (second_call h w)) = requests w @ [UrlGet h]"
proof (cases "fetch (UrlGet h) w")
  case (Pair c w1)
  have "requests w1 = requests w @ [UrlGet h]"
    using fetch_frame(7) [of "UrlGet h" w] Pair by simp
  then show ?thesis
    by (simp add: second_call_unfold [OF Pair] second_tail_requests split: completion.splits)
qed

lemma first_tail_resolution_ok:
  "resolution_ok w
     (andThen (response_json r) (\<lambda>data.
        andThen (prop_read data k) (\<lambda>x.
          case x of
            Some h \<Rightarrow> if truthy h then second_call h else signalled_or_throw data t
          | None \<Rightarrow> signalled_or_throw data t)) w)"
  by (auto simp: andThen_def ret_def prop_read_def response_json_def
      resolution_ok_simple signalled_resolution_ok second_resolution_ok
      split: body.splits sum.splits option.splits)

lemma first_tail_requests:
  "\<exists>rest. requests (snd
     (andThen (response_json r) (\<lambda>data.
        andThen (prop_read data k) (\<lambda>x.
          case x of
            Some h \<Rightarrow> if truthy h then second_call h else signalled_or_throw data t
          | None \<Rightarrow> signalled_or_throw data t)) w)) = requests w @ rest
      \<and> (rest = [] \<or> (\<exists>v. rest = [UrlGet v]))"
  by (auto simp: andThen_def ret_def prop_read_def response_json_def signalled_requests
      second_requests split: body.splits sum.splits option.splits)

lemma getDownloadUrl_unfold:
  "fetch (ApiGet apiBaseUrl [(''type'', d), (''site'', hostname w)]) w = (c, w1) \<Longrightarrow>
   getDownloadUrl d w =
     (case c of
        Normal r \<Rightarrow>
          if \<not> ok r then (Throw (HttpError (status r)), w1)
          else andThen (response_json r) (\<lambda>data.
                 andThen (prop_read data ''webhost'') (\<lambda>x.
                   case x of
                     Some h \<Rightarrow> if truthy h then second_call h
                               else signalled_or_throw data no_valid_address
                   | None \<Rightarrow> signalled_or_throw data no_valid_address)) w1
      | Throw e \<Rightarrow> (Throw e, w1)
      | Pending \<Rightarrow> (Pending, w1))"
  by (simp add: getDownloadUrl_def andThen_def throwErr_def Let_def split: completion.splits)

lemma getDownloadUrl_resolution_ok: "resolution_ok w (getDownloadUrl d w)"
proof (cases "fetch (ApiGet apiBaseUrl [(''type'', d), (''site'', hostname w)]) w")
  case (Pair c w1)
  have frame: "buttons w1 = buttons w" "downloads w1 = downloads w" "console w1 = console w"
    "notifications w1 = notifications w" "markup_keeps_button w1 = markup_keeps_button w"
    using fetch_frame [of "ApiGet apiBaseUrl [(''type'', d), (''site'', hostname w)]" w] Pair
    by simp_all
  have "resolution_ok w1 (getDownloadUrl d w)"
    by (simp add: getDownloadUrl_unfold [OF Pair] resolution_ok_simple first_tail_resolution_ok
        split: completion.splits)
  then show ?thesis
    using frame by (rule resolution_ok_transfer [rotated 5])
qed

lemma getDownloadUrl_requests:
  "\<exists>rest. requests (snd (getDownloadUrl d w)) =
       requests w @ ApiGet apiBaseUrl [(''type'', d), (''site'', hostname w)] # rest
     \<and> (rest = [] \<or> (\<exists>v. rest = [UrlGet v]))"
proof (cases "fetch (ApiGet apiBaseUrl [(''type'', d), (''site'', hostname w)]) w")
  case (Pair c w1)
  have w1: "requests w1 = requests w @ [ApiGet apiBaseUrl [(''type'', d), (''site'', hostname w)]]"
    using fetch_frame(7) [of "ApiGet apiBaseUrl [(''type'', d), (''site'', hostname w)]" w] Pair
    by simp
  show ?thesis
  proof (cases c)
    case (Normal r)
    show ?thesis
    proof (cases "ok r")
      case True
      obtain rest where
        "requests (snd (getDownloadUrl d w)) = requests w1 @ rest"
        "rest = [] \<or> (\<exists>v. rest = [UrlGet v])"
        using first_tail_requests [of r "''webhost''" no_valid_address w1]
        by (auto simp: getDownloadUrl_unfold [OF Pair] Normal True)
      then show ?thesis using w1 by auto
    next
      case False
      then show ?thesis using w1 by (simp add: getDownloadUrl_unfold [OF Pair] Normal)
    qed
  next
    case (Throw e)
    then show ?thesis using w1 by (simp add: getDownloadUrl_unfold [OF Pair])
  next
    case Pending
    then show ?thesis using w1 by (simp add: getDownloadUrl_unfold [OF Pair])
  qed
qed

subsection \<open>When the resolution completes\<close>

lemma signalled_not_pending: "fst (signalled_or_throw d t w) \<noteq> Pending"
  by (auto simp: signalled_or_throw_def andThen_def ret_def throwErr_def
      prop_read_def showError_def showNotification_def Let_def
      split: sum.splits option.splits)

lemma tail_not_pending:
  assumes "body r \<noteq> BodyHangs" and "\<And>h s. fst (k h s) \<noteq> Pending"
  shows "fst (andThen (response_json r) (\<lambda>data.
        andThen (prop_read data f) (\<lambda>x.
          case x of
            Some h \<Rightarrow> if truthy h then k h else signalled_or_throw data t
          | None \<Rightarrow> signalled_or_throw data t)) w) \<noteq> Pending"
  using assms
  by (auto simp: andThen_def prop_read_def response_json_def signalled_not_pending
      split: body.splits sum.splits option.splits)

lemma fetch_answers:
  "network w = o1 # rest \<Longrightarrow> answers o1 \<Longrightarrow>
     fst (fetch req w) \<noteq> Pending \<and>
     (\<forall>r. fst (fetch req w) = Normal r \<longrightarrow>
        body r \<noteq> BodyHangs \<and> network (snd (fetch req w)) = rest)"
  by (cases o1) (auto simp: fetch_def Let_def)

lemma second_call_settles:
  assumes "network w = o2 # rest" and "answers o2"
  shows "fst (second_call h w) \<noteq> Pending"
proof (cases "fetch (UrlGet h) w")
  case (Pair c w1)
  have f: "c \<noteq> Pending" "\<And>r. c = Normal r \<Longrightarrow> body r \<noteq> BodyHangs"
    using fetch_answers [OF assms, of "UrlGet h"] Pair by auto
  show ?thesis
  proof (cases c)
    case (Normal r)
    have "fst (andThen (response_json r) (\<lambda>data.
        andThen (prop_read data ''go'') (\<lambda>x.
          case x of
            Some g \<Rightarrow> if truthy g then ret (Some g) else signalled_or_throw data no_final_address
          | None \<Rightarrow> signalled_or_throw data no_final_address)) w1) \<noteq> Pending"
      by (rule tail_not_pending [OF f(2) [OF Normal]]) (simp add: ret_def)
    then show ?thesis
      by (simp add: second_call_unfold [OF Pair] Normal)
  next
    case (Throw e)
    then show ?thesis by (simp add: second_call_unfold [OF Pair])
  next
    case Pending
    then show ?thesis using f(1) by simp
  qed
qed

text \<open>On a responsive network the resolution completes: it returns or throws.\<close>

lemma getDownloadUrl_settles:
  assumes "responsive (network w)"
  shows "fst (getDownloadUrl d w) \<noteq> Pending"
proof -
  obtain o1 o2 rest where net: "network w = o1 # o2 # rest" and a: "answers o1" "answers o2"
    using assms by (cases "network w" rule: responsive.cases) auto
  let ?req = "ApiGet apiBaseUrl [(''type'', d), (''site'', hostname w)]"
  obtain c w1 where p: "fetch ?req w = (c, w1)"
    by (cases "fetch ?req w")
  have f: "c \<noteq> Pending" "\<And>r. c = Normal r \<Longrightarrow> body r \<noteq> BodyHangs"
    "\<And>r. c = Normal r \<Longrightarrow> network w1 = o2 # rest"
    using fetch_answers [OF net a(1), of ?req] p by auto
  show ?thesis
  proof (cases c)
    case (Normal r)
    have w1: "network w1 = o2 # rest" by (rule f(3) [OF Normal])
    have "fst (andThen (response_json r) (\<lambda>data.
        andThen (prop_read data ''webhost'') (\<lambda>x.
          case x of
            Some h \<Rightarrow> if truthy h then second_call h else signalled_or_throw data no_valid_address
          | None \<Rightarrow> signalled_or_throw data no_valid_address)) w1) \<noteq> Pending"
      by (auto simp: andThen_def prop_read_def response_json_def signalled_not_pending
          second_call_settles [OF w1 a(2)] f(2) [OF Normal]
          split: body.splits sum.splits option.splits)
    then show ?thesis
      by (simp add: getDownloadUrl_unfold [OF p] Normal)
  next
    case (Throw e)
    then show ?thesis by (simp add: getDownloadUrl_unfold [OF p])
  next
    case Pending
    then show ?thesis using f(1) by simp
  qed
qed

subsection \<open>Notifications\<close>

lemma fixed_messages_text:
  "CHR ''<'' \<notin> set busy_message"
  "CHR ''<'' \<notin> set expired_message"
  "CHR ''<'' \<notin> set started_message"
  by (simp_all add: busy_message_def expired_message_def started_message_def)

text \<open>A message that is a string without \<^verbatim>\<open><\<close> is shown and nothing is thrown.\<close>

lemma showNotification_text:
  "CHR ''<'' \<notin> set s \<Longrightarrow>
   showNotification (JStr s) type w =
     (Normal (), w\<lparr>notifications := notifications w @ [\<lparr>message = JStr s, kind = type\<rparr>]\<rparr>)"
  by (simp add: showNotification_def close_button_found_def Let_def)


subsection \<open>The entry points\<close>

lemma download_if_url_eq:
  "download_if_url v w =
     (if download_throws v then (Throw TypeError, w)
      else
        (Normal (),
         case v of
           Some u \<Rightarrow>
             if truthy u
             then w\<lparr>downloads := downloads w @ [u],
                    notifications :=
                      notifications w @ [\<lparr>message = JStr started_message, kind = ''success''\<rparr>]\<rparr>
             else w
         | None \<Rightarrow> w))"
  by (simp add: download_if_url_def downloadFile_def download_throws_def andThen_def
      showSuccess_def showNotification_text fixed_messages_text ret_def throwErr_def
      split: option.splits)

text \<open>Both entry points are this flow, with their own message in the catch block.\<close>

lemma entry_flow:
  assumes "getDownloadUrl d (snd (showLoadingState w)) = (c, w2)"
    and "CHR ''<'' \<notin> set msg"
  shows "tryFinally
           (tryCatch
              (andThen showLoadingState (\<lambda>u. andThen (getDownloadUrl d) download_if_url))
              (\<lambda>error. andThen (console_error error) (\<lambda>u. showError (JStr msg))))
           hideLoadingState w =
         (case c of
            Pending \<Rightarrow> (Pending, w2)
          | Throw e \<Rightarrow> hideLoadingState (caught e msg w2)
          | Normal v \<Rightarrow>
              if download_throws v then hideLoadingState (caught TypeError msg w2)
              else hideLoadingState (snd (download_if_url v w2)))"
proof -
  have start: "showLoadingState w = (Normal (), snd (showLoadingState w))"
    by (simp add: showLoadingState_def)
  have body: "andThen showLoadingState (\<lambda>u. andThen (getDownloadUrl d) download_if_url) w =
      (case c of Normal v \<Rightarrow> download_if_url v w2 | Throw e \<Rightarrow> (Throw e, w2) | Pending \<Rightarrow> (Pending, w2))"
    using assms(1)
    by (subst andThen_def, subst start) (simp add: andThen_def split: completion.splits)
  have handler: "andThen (console_error e) (\<lambda>u. showError (JStr msg)) s = (Normal (), caught e msg s)"
    for e s
    using assms(2)
    by (simp add: andThen_def console_error_def showError_def showNotification_text caught_def
        error_note_def)
  show ?thesis
  proof (cases c)
    case (Normal v)
    show ?thesis
    proof (cases "download_throws v")
      case True
      then have "download_if_url v w2 = (Throw TypeError, w2)"
        by (simp add: download_if_url_eq)
      then show ?thesis
        unfolding tryFinally_def tryCatch_def body
        by (simp add: Normal True handler) (simp add: hideLoadingState_def)
    next
      case False
      then obtain w3 where d: "download_if_url v w2 = (Normal (), w3)"
        by (simp add: download_if_url_eq)
      show ?thesis
        unfolding tryFinally_def tryCatch_def body
        by (simp add: Normal False d) (simp add: hideLoadingState_def)
    qed
  next
    case (Throw e)
    then show ?thesis
      unfolding tryFinally_def tryCatch_def body
      by (simp add: handler) (simp add: hideLoadingState_def)
  next
    case Pending
    then show ?thesis
      unfolding tryFinally_def tryCatch_def body by simp
  qed
qed

lemma handleDownload_flow:
  assumes "getDownloadUrl d (snd (showLoadingState w)) = (c, w2)"
  shows "handleDownload d w =
         (case c of
            Pending \<Rightarrow> (Pending, w2)
          | Throw e \<Rightarrow> hideLoadingState (caught e busy_message w2)
          | Normal v \<Rightarrow>
              if download_throws v then hideLoadingState (caught TypeError busy_message w2)
              else hideLoadingState (snd (download_if_url v w2)))"
  unfolding handleDownload_def by (rule entry_flow [OF assms fixed_messages_text(1)])

lemma handleOriginalDownload_flow:
  assumes "getDownloadUrl (detectDeviceType (userAgent w)) (snd (showLoadingState w)) = (c, w2)"
  shows "handleOriginalDownload w =
         (case c of
            Pending \<Rightarrow> (Pending, w2)
          | Throw e \<Rightarrow> hideLoadingState (caught e expired_message w2)
          | Normal v \<Rightarrow>
              if download_throws v then hideLoadingState (caught TypeError expired_message w2)
              else hideLoadingState (snd (download_if_url v w2)))"
proof -
  have "handleOriginalDownload w =
        tryFinally
           (tryCatch
              (andThen showLoadingState
                 (\<lambda>u. andThen (getDownloadUrl (detectDeviceType (userAgent w))) download_if_url))
              (\<lambda>error. andThen (console_error error) (\<lambda>u. showError (JStr expired_message))))
           hideLoadingState w"
    by (simp add: handleOriginalDownload_def tryFinally_def tryCatch_def andThen_def
        showLoadingState_def)
  then show ?thesis by (simp add: entry_flow [OF assms fixed_messages_text(2)])
qed

lemma showLoadingState_frame:
  "notifications (snd (showLoadingState w)) = notifications w"
  "requests (snd (showLoadingState w)) = requests w"
  "downloads (snd (showLoadingState w)) = downloads w"
  "console (snd (showLoadingState w)) = console w"
  "hostname (snd (showLoadingState w)) = hostname w"
  "network (snd (showLoadingState w)) = network w"
  "markup_keeps_button (snd (showLoadingState w)) = markup_keeps_button w"
  "buttons (snd (showLoadingState w)) = dimmed (buttons w)"
  by (simp_all add: showLoadingState_def dimmed_def)

lemma hideLoadingState_frame:
  "fst (hideLoadingState w) = Normal ()"
  "notifications (snd (hideLoadingState w)) = notifications w"
  "requests (snd (hideLoadingState w)) = requests w"
  "downloads (snd (hideLoadingState w)) = downloads w"
  "console (snd (hideLoadingState w)) = console w"
  "buttons (snd (hideLoadingState w)) = restored (buttons w)"
  by (simp_all add: hideLoadingState_def restored_def)

lemma caught_frame:
  "buttons (caught e msg w) = buttons w"
  "requests (caught e msg w) = requests w"
  "downloads (caught e msg w) = downloads w"
  "console (caught e msg w) = console w @ [e]"
  "notifications (caught e msg w) = notifications w @ [error_note (JStr msg)]"
  by (simp_all add: caught_def)

lemma download_if_url_frame:
  "buttons (snd (download_if_url v w)) = buttons w"
  "requests (snd (download_if_url v w)) = requests w"
  "console (snd (download_if_url v w)) = console w"
  by (simp_all add: download_if_url_eq split: option.splits)

lemma busy_dimmed: "buttons w = dimmed bs \<Longrightarrow> busy w"
  by (simp add: busy_def dimmed_def disabled_def list_all_iff)

lemma idle_restored: "buttons w = restored bs \<Longrightarrow> idle w"
  by (simp add: idle_def restored_def enabled_def list_all_iff)

lemma not_busy_restored: "buttons w = restored bs \<Longrightarrow> bs \<noteq> [] \<Longrightarrow> \<not> busy w"
  by (cases bs) (simp_all add: busy_def restored_def disabled_def)

lemma restored_dimmed: "restored (dimmed bs) = restored bs"
  by (simp add: restored_def dimmed_def)

subsection \<open>Scenarios of the two hops\<close>

lemma fetch_scenarios:
  "request_stringifies req \<Longrightarrow> network w = [] \<Longrightarrow>
     fetch req w = (Pending, w\<lparr>requests := requests w @ [req]\<rparr>)"
  "request_stringifies req \<Longrightarrow> network w = FetchHangs # rest \<Longrightarrow>
     fetch req w = (Pending, w\<lparr>requests := requests w @ [req], network := rest\<rparr>)"
  "request_stringifies req \<Longrightarrow> network w = FetchFails # rest \<Longrightarrow>
     fetch req w = (Throw NetworkFailure, w\<lparr>requests := requests w @ [req], network := rest\<rparr>)"
  "request_stringifies req \<Longrightarrow> network w = FetchResponds r # rest \<Longrightarrow>
     fetch req w = (Normal r, w\<lparr>requests := requests w @ [req], network := rest\<rparr>)"
  "\<not> request_stringifies req \<Longrightarrow>
     fetch req w = (Throw TypeError, w\<lparr>requests := requests w @ [req]\<rparr>)"
  by (simp_all add: fetch_def Let_def)

lemma hop1_fetch:
  "network w = FetchFails # rest \<Longrightarrow>
     fetch (ApiGet apiBaseUrl ps) w =
       (Throw NetworkFailure, w\<lparr>requests := requests w @ [ApiGet apiBaseUrl ps], network := rest\<rparr>)"
  "network w = FetchResponds r # rest \<Longrightarrow>
     fetch (ApiGet apiBaseUrl ps) w =
       (Normal r, w\<lparr>requests := requests w @ [ApiGet apiBaseUrl ps], network := rest\<rparr>)"
  by (simp_all add: fetch_scenarios)

text \<open>Transport errors of hop 1: the network fails, or the status is not 2xx.\<close>

lemma hop1_network_failure:
  "network w = FetchFails # rest \<Longrightarrow>
   getDownloadUrl d w =
     (Throw NetworkFailure,
      w\<lparr>requests := requests w @ [ApiGet apiBaseUrl [(''type'', d), (''site'', hostname w)]],
        network := rest\<rparr>)"
  by (simp add: getDownloadUrl_unfold [OF hop1_fetch(1)])

lemma hop1_http_error:
  "network w = FetchResponds r # rest \<Longrightarrow> \<not> ok r \<Longrightarrow>
   getDownloadUrl d w =
     (Throw (HttpError (status r)),
      w\<lparr>requests := requests w @ [ApiGet apiBaseUrl [(''type'', d), (''site'', hostname w)]],
        network := rest\<rparr>)"
  by (simp add: getDownloadUrl_unfold [OF hop1_fetch(2)])




text \<open>Hop 1 answers 2xx with a truthy \<^verbatim>\<open>webhost\<close>: hop 2 is issued against it.\<close>

lemma hop1_webhost:
  assumes "network w = FetchResponds r # rest" "ok r" "body r = BodyJson (JObj kvs)"
    "map_of kvs ''webhost'' = Some h" "truthy h"
  shows "getDownloadUrl d w =
     second_call h
       (w\<lparr>requests := requests w @ [ApiGet apiBaseUrl [(''type'', d), (''site'', hostname w)]],
          network := rest\<rparr>)"
  using assms
  by (simp add: getDownloadUrl_unfold [OF hop1_fetch(2)] andThen_def response_json_def
      prop_read_def)

text \<open>Transport and resolution errors of hop 2, and its success, for a \<^verbatim>\<open>webhost\<close>
  that converts to a string.\<close>

lemma hop2_network_failure:
  "stringifies h \<Longrightarrow> network w = FetchFails # rest \<Longrightarrow>
   second_call h w =
     (Throw NetworkFailure, w\<lparr>requests := requests w @ [UrlGet h], network := rest\<rparr>)"
  by (simp add: second_call_unfold [OF fetch_scenarios(3)])

lemma hop2_http_error:
  "stringifies h \<Longrightarrow> network w = FetchResponds r # rest \<Longrightarrow> \<not> ok r \<Longrightarrow>
   second_call h w =
     (Throw (HttpError (status r)), w\<lparr>requests := requests w @ [UrlGet h], network := rest\<rparr>)"
  by (simp add: second_call_unfold [OF fetch_scenarios(4)])

lemma hop2_no_go:
  assumes "stringifies h" "network w = FetchResponds r # rest" "ok r"
    "body r = BodyJson (JObj kvs)" "\<not> truthy_opt (map_of kvs ''go'')"
  shows "second_call h w =
     signalled_or_throw (JObj kvs) no_final_address
       (w\<lparr>requests := requests w @ [UrlGet h], network := rest\<rparr>)"
  using assms
  by (auto simp: second_call_unfold [OF fetch_scenarios(4)] andThen_def response_json_def
      prop_read_def split: option.splits)

lemma hop2_go:
  assumes "stringifies h" "network w = FetchResponds r # rest" "ok r"
    "body r = BodyJson (JObj kvs)" "map_of kvs ''go'' = Some g" "truthy g"
  shows "second_call h w =
     (Normal (Some g), w\<lparr>requests := requests w @ [UrlGet h], network := rest\<rparr>)"
  using assms
  by (simp add: second_call_unfold [OF fetch_scenarios(4)] andThen_def response_json_def
      prop_read_def ret_def)

subsection \<open>Evaluating the flow on an example page\<close>

lemmas run_defs =
  handleDownload_def handleOriginalDownload_def tryFinally_def tryCatch_def andThen_def
  showLoadingState_def hideLoadingState_def getDownloadUrl_def second_call_def
  signalled_or_throw_def fetch_def response_json_def prop_read_def download_if_url_def
  downloadFile_def showError_def showSuccess_def showNotification_def console_error_def
  ret_def throwErr_def ok_def Let_def example_page_def ok_response_def error_note_def
  close_button_found_def fixed_messages_text

lemma detect_android: "detectDeviceType ''Mozilla/5.0 (Linux; Android 14) Mobile'' = ''mobile''"
  by code_simp

lemma detect_desktop: "detectDeviceType ''Mozilla/5.0 (X11; Linux x86_64)'' = ''pc''"
  by code_simp

lemma detect_ipad_lowercase: "detectDeviceType ''tablet ipad'' = ''mobile''"
  by code_simp

lemma messages_differ: "busy_message \<noteq> expired_message"
  by (simp add: busy_message_def expired_message_def)

text \<open>
  The scenario of the specification: device type \<^verbatim>\<open>mobile\<close>, hop 1 answers with a
  \<^verbatim>\<open>webhost\<close>, hop 2 with a \<^verbatim>\<open>go\<close>. Both requests are issued, the download of
  the final URL is triggered, and the only notification is the success.
\<close>

lemma both_hops_succeed:
  "handleDownload ''mobile'' (example_page
     [ok_response (JObj [(''webhost'', JStr ''https://x/y'')]),
      ok_response (JObj [(''go'', JStr ''https://files/app.apk'')])]) =
   (Normal (),
    (example_page [])
      \<lparr>buttons := [\<lparr>btn_opacity = ''1'', btn_pointerEvents = ''auto''\<rparr>,
                   \<lparr>btn_opacity = ''1'', btn_pointerEvents = ''auto''\<rparr>],
       notifications := [\<lparr>message = JStr started_message, kind = ''success''\<rparr>],
       requests := [ApiGet apiBaseUrl [(''type'', ''mobile''), (''site'', ''sigua.io'')],
                    UrlGet (JStr ''https://x/y'')],
       downloads := [JStr ''https://files/app.apk'']\<rparr>)"
  by (simp add: run_defs)

text \<open>Hop 2 signals a failure: its message is shown, and nothing is downloaded.\<close>

lemma hop2_signals_failure:
  "notifications (snd (handleDownload ''pc'' (example_page
     [ok_response (JObj [(''webhost'', JStr ''https://x/y'')]),
      ok_response (JObj [(''code'', JNum (Finite 1)), (''msg'', JStr ''no build'')])])))
     = [error_note (JStr ''no build'')]
   \<and> downloads (snd (handleDownload ''pc'' (example_page
     [ok_response (JObj [(''webhost'', JStr ''https://x/y'')]),
      ok_response (JObj [(''code'', JNum (Finite 1)), (''msg'', JStr ''no build'')])])))
     = []"
  by (simp add: run_defs)

text \<open>
  Hop 1 signals a failure whose message opens a comment. The message is appended, the
  close button is gone, the TypeError leaves the resolution, and the catch block adds
  the busy message: two notifications, and the TypeError on the console.
\<close>

lemma markup_in_msg_is_thrown:
  "fst (getDownloadUrl ''pc''
         (snd (showLoadingState (example_page
           [ok_response (JObj [(''code'', JNum (Finite 1)), (''msg'', JStr ''<!--'')])]))))
       = Throw TypeError
   \<and> notifications (snd (handleDownload ''pc'' (example_page
           [ok_response (JObj [(''code'', JNum (Finite 1)), (''msg'', JStr ''<!--'')])])))
       = [error_note (JStr ''<!--''), error_note (JStr busy_message)]
   \<and> console (snd (handleDownload ''pc'' (example_page
           [ok_response (JObj [(''code'', JNum (Finite 1)), (''msg'', JStr ''<!--'')])])))
       = [TypeError]
   \<and> fst (handleDownload ''pc'' (example_page
           [ok_response (JObj [(''code'', JNum (Finite 1)), (''msg'', JStr ''<!--'')])]))
       = Normal ()"
  by (simp add: run_defs)

text \<open>
  Hop 1 signals a failure whose message is an object with a property \<^verbatim>\<open>toString\<close>:
  the message cannot be converted, nothing of it is shown, and the busy message is.
\<close>

lemma unconvertible_msg_is_thrown:
  "notifications (snd (handleDownload ''pc'' (example_page
           [ok_response (JObj [(''code'', JNum (Finite 1)),
                               (''msg'', JObj [(''toString'', JNull)])])])))
       = [error_note (JStr busy_message)]
   \<and> console (snd (handleDownload ''pc'' (example_page
           [ok_response (JObj [(''code'', JNum (Finite 1)),
                               (''msg'', JObj [(''toString'', JNull)])])])))
       = [TypeError]"
  by (simp add: run_defs)

text \<open>
  Both hops succeed but the final URL is an object that cannot be converted to a
  string: \<^verbatim>\<open>downloadFile\<close> throws, nothing is downloaded, the busy message is shown.
\<close>

lemma unconvertible_url_is_thrown:
  "handleDownload ''pc'' (example_page
     [ok_response (JObj [(''webhost'', JStr ''https://x/y'')]),
      ok_response (JObj [(''go'', JObj [(''toString'', JNull)])])]) =
   (Normal (),
    (example_page [])
      \<lparr>buttons := [\<lparr>btn_opacity = ''1'', btn_pointerEvents = ''auto''\<rparr>,
                   \<lparr>btn_opacity = ''1'', btn_pointerEvents = ''auto''\<rparr>],
       notifications := [error_note (JStr busy_message)],
       requests := [ApiGet apiBaseUrl [(''type'', ''pc''), (''site'', ''sigua.io'')],
                    UrlGet (JStr ''https://x/y'')],
       console := [TypeError]\<rparr>)"
  by (simp add: run_defs)

subsection \<open>What an entry point leaves behind\<close>

lemma handleDownload_result:
  "handleDownload d w =
     flow_result busy_message
       (fst (getDownloadUrl d (snd (showLoadingState w))))
       (snd (getDownloadUrl d (snd (showLoadingState w))))"
  by (simp add: handleDownload_flow [OF prod.collapse [symmetric]] flow_result_def)

lemma handleOriginalDownload_result:
  "handleOriginalDownload w =
     flow_result expired_message
       (fst (getDownloadUrl (detectDeviceType (userAgent w)) (snd (showLoadingState w))))
       (snd (getDownloadUrl (detectDeviceType (userAgent w)) (snd (showLoadingState w))))"
  by (simp add: handleOriginalDownload_flow [OF prod.collapse [symmetric]] flow_result_def)

lemma resolution_from_busy:
  "resolution_ok (snd (showLoadingState w)) (getDownloadUrl d (snd (showLoadingState w)))"
  by (rule getDownloadUrl_resolution_ok)

lemma flow_result_pending: "flow_result msg Pending w2 = (Pending, w2)"
  by (simp add: flow_result_def)

lemma flow_result_settled:
  "c \<noteq> Pending \<Longrightarrow>
     fst (flow_result msg c w2) = Normal () \<and>
     buttons (snd (flow_result msg c w2)) = restored (buttons w2)"
  by (cases c)
    (simp_all add: flow_result_def hideLoadingState_frame caught_frame download_if_url_frame)

lemma flow_result_never_throws: "fst (flow_result msg c w2) \<noteq> Throw e"
  by (cases c) (simp_all add: flow_result_def hideLoadingState_frame)

lemma flow_result_thrown:
  "flow_result msg (Throw e) w2 = hideLoadingState (caught e msg w2)"
  by (simp add: flow_result_def)

lemma flow_result_download_throws:
  "download_throws v \<Longrightarrow>
     flow_result msg (Normal v) w2 = hideLoadingState (caught TypeError msg w2)"
  by (simp add: flow_result_def)


text \<open>The notifications after a resolution that threw \<open>e\<close>, and after the catch block.\<close>

lemma thrown_notifications:
  assumes "resolution_ok w1 (Throw e, w2)"
  shows "(e \<noteq> TypeError \<longrightarrow> notifications (caught e msg w2) =
            notifications w1 @ [error_note (JStr msg)])
    \<and> (\<exists>ns. length ns \<le> 1 \<and>
          notifications (caught e msg w2) = notifications w1 @ ns @ [error_note (JStr msg)])"
proof -
  have "notifications w2 = notifications w1 \<or>
      (e = TypeError \<and> (\<exists>m. notifications w2 = notifications w1 @ [error_note m]))"
    using assms by (auto simp: resolution_ok_def error_note_def)
  then show ?thesis
  proof
    assume same: "notifications w2 = notifications w1"
    then have "notifications (caught e msg w2) = notifications w1 @ [] @ [error_note (JStr msg)]"
      by (simp add: caught_frame)
    then show ?thesis
      using same by (auto simp: caught_frame intro: exI [of _ "[]"])
  next
    assume "e = TypeError \<and> (\<exists>m. notifications w2 = notifications w1 @ [error_note m])"
    then obtain m where e: "e = TypeError"
      and n: "notifications w2 = notifications w1 @ [error_note m]"
      by auto
    have "length [error_note m] \<le> 1 \<and>
        notifications (caught e msg w2) =
          notifications w1 @ [error_note m] @ [error_note (JStr msg)]"
      by (simp add: caught_frame n)
    then show ?thesis using e by blast
  qed
qed

lemma resolution_console_buttons:
  assumes "resolution_ok w1 (c, w2)"
  shows "console w2 = console w1" "buttons w2 = buttons w1" "downloads w2 = downloads w1"
  using assms by (simp_all add: resolution_ok_def)

lemma returned_url_notifications:
  assumes "resolution_ok w1 (Normal (Some u), w2)"
  shows "notifications w2 = notifications w1" "truthy u"
  using assms by (simp_all add: resolution_ok_def)

subsection \<open>C1: the generic error notification\<close>

text \<open>
  C1 as stated fails: the generic entry point has a catch block of its own, with
  another message. A network failure on hop 1 of \<^const>\<open>handleOriginalDownload\<close> ends in
  the notification that the site has expired, not in the one that the download is busy.
\<close>

theorem generic_entry_point_shows_other_message:
  "fst (getDownloadUrl (detectDeviceType (userAgent (example_page [FetchFails])))
          (snd (showLoadingState (example_page [FetchFails])))) = Throw NetworkFailure
   \<and> notifications (snd (handleOriginalDownload (example_page [FetchFails]))) =
       [error_note (JStr expired_message)]
   \<and> error_note (JStr expired_message) \<noteq> error_note (JStr busy_message)"
  by (simp add: run_defs) (simp add: busy_message_def expired_message_def)

text \<open>
  C1 as amended: whatever error the resolution throws, the entry point settles
  normally and the last notification it has added is an error with the fixed message
  of that entry point: the busy message for \<^const>\<open>handleDownload\<close>, the expired message
  for \<^const>\<open>handleOriginalDownload\<close>. For a transport error (a network failure or a
  status outside 2xx on either hop), a resolution error (a body without the expected
  field and without a truthy pair of \<^verbatim>\<open>code\<close> and \<^verbatim>\<open>msg\<close>) and a body that is
  not JSON, that notification is the only one added. The one other error is the
  TypeError, and there at most one notification comes before the fixed one (the
  server's message, when showing it threw).
\<close>

theorem thrown_errors_collapse_to_fixed_message:
  "(fst (getDownloadUrl d (snd (showLoadingState w))) = Throw e \<longrightarrow>
      fst (handleDownload d w) = Normal () \<and>
      (e \<noteq> TypeError \<longrightarrow>
         notifications (snd (handleDownload d w)) =
           notifications w @ [error_note (JStr busy_message)]) \<and>
      (\<exists>ns. length ns \<le> 1 \<and>
         notifications (snd (handleDownload d w)) =
           notifications w @ ns @ [error_note (JStr busy_message)]))
   \<and> (fst (getDownloadUrl (detectDeviceType (userAgent w)) (snd (showLoadingState w))) = Throw e \<longrightarrow>
      fst (handleOriginalDownload w) = Normal () \<and>
      (e \<noteq> TypeError \<longrightarrow>
         notifications (snd (handleOriginalDownload w)) =
           notifications w @ [error_note (JStr expired_message)]) \<and>
      (\<exists>ns. length ns \<le> 1 \<and>
         notifications (snd (handleOriginalDownload w)) =
           notifications w @ ns @ [error_note (JStr expired_message)]))"
proof -
  let ?w1 = "snd (showLoadingState w)"
  have flow: "fst (flow_result msg (fst (getDownloadUrl d' ?w1)) (snd (getDownloadUrl d' ?w1)))
        = Normal () \<and>
      (e \<noteq> TypeError \<longrightarrow>
         notifications (snd (flow_result msg (fst (getDownloadUrl d' ?w1))
             (snd (getDownloadUrl d' ?w1)))) =
           notifications w @ [error_note (JStr msg)]) \<and>
      (\<exists>ns. length ns \<le> 1 \<and>
         notifications (snd (flow_result msg (fst (getDownloadUrl d' ?w1))
             (snd (getDownloadUrl d' ?w1)))) =
           notifications w @ ns @ [error_note (JStr msg)])"
    if t: "fst (getDownloadUrl d' ?w1) = Throw e" for d' msg
  proof -
    obtain w2 where g: "getDownloadUrl d' ?w1 = (Throw e, w2)"
      using t by (cases "getDownloadUrl d' ?w1") simp
    have ok: "resolution_ok ?w1 (Throw e, w2)"
      using resolution_from_busy [of w d'] g by simp
    show ?thesis
      using thrown_notifications [OF ok, of msg]
      by (simp add: g flow_result_thrown hideLoadingState_frame showLoadingState_frame)
  qed
  show ?thesis
    using flow [of d busy_message] flow [of "detectDeviceType (userAgent w)" expired_message]
    by (simp add: handleDownload_result handleOriginalDownload_result)
qed

text \<open>
  Two runs of the amended C1: a transport error (status 503 on hop 1) under
  \<^const>\<open>handleDownload\<close>, and a resolution error (an empty object from hop 1) under
  \<^const>\<open>handleOriginalDownload\<close>.
\<close>

theorem thrown_errors_collapse_witness:
  "fst (getDownloadUrl ''pc''
          (snd (showLoadingState (example_page [FetchResponds \<lparr>status = 503, body = BodyInvalid\<rparr>]))))
      = Throw (HttpError 503)
   \<and> fst (handleDownload ''pc'' (example_page [FetchResponds \<lparr>status = 503, body = BodyInvalid\<rparr>]))
      = Normal ()
   \<and> notifications
        (snd (handleDownload ''pc'' (example_page [FetchResponds \<lparr>status = 503, body = BodyInvalid\<rparr>])))
      = [error_note (JStr busy_message)]
   \<and> fst (getDownloadUrl (detectDeviceType (userAgent (example_page [ok_response (JObj [])])))
          (snd (showLoadingState (example_page [ok_response (JObj [])]))))
      = Throw (ResolutionError no_valid_address)
   \<and> fst (handleOriginalDownload (example_page [ok_response (JObj [])])) = Normal ()
   \<and> notifications (snd (handleOriginalDownload (example_page [ok_response (JObj [])])))
      = [error_note (JStr expired_message)]"
proof -
  let ?w1 = "example_page [FetchResponds \<lparr>status = 503, body = BodyInvalid\<rparr>]"
  let ?w2 = "example_page [ok_response (JObj [])]"
  have h1: "fst (getDownloadUrl ''pc'' (snd (showLoadingState ?w1))) = Throw (HttpError 503)"
    by (simp add: run_defs)
  have h2: "fst (getDownloadUrl (detectDeviceType (userAgent ?w2)) (snd (showLoadingState ?w2)))
      = Throw (ResolutionError no_valid_address)"
    by (simp add: run_defs)
  have n1: "notifications ?w1 = []" and n2: "notifications ?w2 = []"
    by (simp_all add: example_page_def)
  show ?thesis
    using thrown_errors_collapse_to_fixed_message [of "''pc''" ?w1 "HttpError 503"]
      thrown_errors_collapse_to_fixed_message [of d ?w2 "ResolutionError no_valid_address"]
      h1 h2 n1 n2
    by simp
qed

subsection \<open>C2: a failure the server signals on hop 1\<close>




subsection \<open>C3: the request of hop 1\<close>

text \<open>
  C3: for every device type \<open>d\<close>, so for \<^verbatim>\<open>pc\<close> and \<^verbatim>\<open>mobile\<close>, the first request
  \<^const>\<open>handleDownload\<close> issues goes to the fixed base endpoint with the parameters
  \<^verbatim>\<open>type\<close> = \<open>d\<close> and \<^verbatim>\<open>site\<close> = the current hostname; the only other request the
  flow can issue is hop 2, a plain request with no parameters of its own, so no
  request carries another \<^verbatim>\<open>type\<close>.
\<close>

theorem hop1_carries_device_type_and_hostname:
  "\<exists>rest. requests (snd (handleDownload d w)) =
       requests w @ ApiGet apiBaseUrl [(''type'', d), (''site'', hostname w)] # rest
     \<and> (rest = [] \<or> (\<exists>v. rest = [UrlGet v]))"
proof -
  let ?w1 = "snd (showLoadingState w)"
  obtain c w2 where g: "getDownloadUrl d ?w1 = (c, w2)"
    by (cases "getDownloadUrl d ?w1")
  obtain rest where rest:
    "requests w2 = requests w @ ApiGet apiBaseUrl [(''type'', d), (''site'', hostname w)] # rest"
    "rest = [] \<or> (\<exists>v. rest = [UrlGet v])"
    using getDownloadUrl_requests [of d ?w1] g by (auto simp: showLoadingState_frame)
  have "requests (snd (handleDownload d w)) = requests w2"
    by (cases c)
      (simp_all add: handleDownload_flow [OF g] hideLoadingState_frame caught_frame
        download_if_url_frame)
  then show ?thesis using rest by auto
qed

subsection \<open>C4: the busy state\<close>

text \<open>
  C4, for both entry points. The flow starts by putting every download button in the
  busy state, and the resolution, where all the waiting is done, runs from that state
  and leaves the buttons as they are: while the flow is pending it is the resolution
  that is pending, and the page is busy. When the resolution completes, whether it
  returns or throws, the flow settles normally with every button restored, so idle
  (and, when the page has a download button at all, no longer busy). The resolution
  does complete whenever the network answers its requests.
\<close>

theorem busy_from_start_until_settled:
  "buttons (snd (showLoadingState w)) = dimmed (buttons w)
   \<and> busy (snd (showLoadingState w))
   \<and> buttons (snd (getDownloadUrl d (snd (showLoadingState w)))) = dimmed (buttons w)
   \<and> busy (snd (getDownloadUrl d (snd (showLoadingState w))))
   \<and> (fst (getDownloadUrl d (snd (showLoadingState w))) = Pending \<longrightarrow>
        handleDownload d w = (Pending, snd (getDownloadUrl d (snd (showLoadingState w)))))
   \<and> (fst (getDownloadUrl d (snd (showLoadingState w))) \<noteq> Pending \<longrightarrow>
        fst (handleDownload d w) = Normal () \<and>
        buttons (snd (handleDownload d w)) = restored (buttons w) \<and>
        idle (snd (handleDownload d w)) \<and>
        (buttons w \<noteq> [] \<longrightarrow> \<not> busy (snd (handleDownload d w))))
   \<and> (responsive (network w) \<longrightarrow>
        fst (getDownloadUrl d (snd (showLoadingState w))) \<noteq> Pending)
   \<and> (fst (getDownloadUrl (detectDeviceType (userAgent w)) (snd (showLoadingState w))) = Pending \<longrightarrow>
        handleOriginalDownload w =
          (Pending, snd (getDownloadUrl (detectDeviceType (userAgent w)) (snd (showLoadingState w)))))
   \<and> (fst (getDownloadUrl (detectDeviceType (userAgent w)) (snd (showLoadingState w))) \<noteq> Pending \<longrightarrow>
        fst (handleOriginalDownload w) = Normal () \<and>
        buttons (snd (handleOriginalDownload w)) = restored (buttons w) \<and>
        idle (snd (handleOriginalDownload w)) \<and>
        (buttons w \<noteq> [] \<longrightarrow> \<not> busy (snd (handleOriginalDownload w))))"
proof -
  let ?w1 = "snd (showLoadingState w)"
  have start: "buttons ?w1 = dimmed (buttons w)"
    by (simp add: showLoadingState_frame)
  have during: "buttons (snd (getDownloadUrl d' ?w1)) = dimmed (buttons w)" for d'
    using resolution_from_busy [of w d'] by (simp add: resolution_ok_def start)
  have pending1: "handleDownload d w = (Pending, snd (getDownloadUrl d ?w1))"
    if "fst (getDownloadUrl d ?w1) = Pending"
    using that by (simp add: handleDownload_result flow_result_pending)
  have pending2: "handleOriginalDownload w =
      (Pending, snd (getDownloadUrl (detectDeviceType (userAgent w)) ?w1))"
    if "fst (getDownloadUrl (detectDeviceType (userAgent w)) ?w1) = Pending"
    using that by (simp add: handleOriginalDownload_result flow_result_pending)
  have settled: "fst r = Normal () \<and> buttons (snd r) = restored (buttons w) \<and> idle (snd r) \<and>
      (buttons w \<noteq> [] \<longrightarrow> \<not> busy (snd r))"
    if c: "fst (getDownloadUrl d' ?w1) \<noteq> Pending"
      and r: "r = flow_result msg (fst (getDownloadUrl d' ?w1)) (snd (getDownloadUrl d' ?w1))"
    for r d' msg
  proof -
    have b: "fst r = Normal ()" "buttons (snd r) = restored (buttons w)"
      using flow_result_settled [OF c, of msg "snd (getDownloadUrl d' ?w1)"]
      by (simp_all add: r during restored_dimmed)
    show ?thesis
      using b idle_restored [OF b(2)] not_busy_restored [OF b(2)] by simp
  qed
  have live: "fst (getDownloadUrl d ?w1) \<noteq> Pending" if "responsive (network w)"
    using that getDownloadUrl_settles [of ?w1 d] by (simp add: showLoadingState_frame)
  show ?thesis
    using start busy_dimmed [OF start] during [of d] busy_dimmed [OF during [of d]]
      pending1 pending2
      settled [OF _ handleDownload_result [of d w]]
      settled [OF _ handleOriginalDownload_result [of w]] live
    by simp
qed

text \<open>
  Two runs of C4 on the example page, which has two buttons: the server never answers
  hop 1 and the page stays busy; both hops succeed and the page ends idle.
\<close>

theorem busy_from_start_until_settled_witness:
  "fst (handleDownload ''pc'' (example_page [FetchHangs])) = Pending
   \<and> busy (snd (handleDownload ''pc'' (example_page [FetchHangs])))
   \<and> responsive (network (example_page
        [ok_response (JObj [(''webhost'', JStr ''https://x/y'')]),
         ok_response (JObj [(''go'', JStr ''https://files/app.apk'')])]))
   \<and> fst (handleDownload ''pc'' (example_page
        [ok_response (JObj [(''webhost'', JStr ''https://x/y'')]),
         ok_response (JObj [(''go'', JStr ''https://files/app.apk'')])])) = Normal ()
   \<and> idle (snd (handleDownload ''pc'' (example_page
        [ok_response (JObj [(''webhost'', JStr ''https://x/y'')]),
         ok_response (JObj [(''go'', JStr ''https://files/app.apk'')])])))
   \<and> \<not> busy (snd (handleDownload ''pc'' (example_page
        [ok_response (JObj [(''webhost'', JStr ''https://x/y'')]),
         ok_response (JObj [(''go'', JStr ''https://files/app.apk'')])])))
   \<and> fst (handleOriginalDownload (example_page [FetchFails])) = Normal ()
   \<and> idle (snd (handleOriginalDownload (example_page [FetchFails])))
   \<and> \<not> busy (snd (handleOriginalDownload (example_page [FetchFails])))"
proof -
  let ?w1 = "example_page [FetchHangs]"
  let ?w2 = "example_page
        [ok_response (JObj [(''webhost'', JStr ''https://x/y'')]),
         ok_response (JObj [(''go'', JStr ''https://files/app.apk'')])]"
  let ?w3 = "example_page [FetchFails]"
  have p: "fst (getDownloadUrl ''pc'' (snd (showLoadingState ?w1))) = Pending"
    by (simp add: run_defs)
  have r: "responsive (network ?w2)"
    by (simp add: example_page_def ok_response_def)
  have n: "fst (getDownloadUrl (detectDeviceType (userAgent ?w3)) (snd (showLoadingState ?w3)))
      \<noteq> Pending"
    by (simp add: run_defs)
  have b: "buttons ?w2 \<noteq> []" "buttons ?w3 \<noteq> []"
    by (simp_all add: example_page_def)
  show ?thesis
    using busy_from_start_until_settled [of ?w1 "''pc''"]
      busy_from_start_until_settled [of ?w2 "''pc''"]
      busy_from_start_until_settled [of ?w3 d] p r n b
    by simp
qed

subsection \<open>C5: nothing is thrown to the caller\<close>

text \<open>
  C5: neither entry point ever completes by throwing, whatever the device type, the
  page, the network and the browser's parser do. An error thrown inside the flow, by
  the resolution or by \<^verbatim>\<open>downloadFile\<close>, is caught there: it is logged on the
  console, the entry point settles normally, and the last notification added is the
  error with the entry point's fixed message.
\<close>

theorem entry_points_never_throw:
  "fst (handleDownload d w) \<noteq> Throw e
   \<and> fst (handleOriginalDownload w) \<noteq> Throw e
   \<and> (fst (getDownloadUrl d (snd (showLoadingState w))) = Throw e' \<longrightarrow>
        fst (handleDownload d w) = Normal () \<and>
        console (snd (handleDownload d w)) = console w @ [e'] \<and>
        (\<exists>ns. notifications (snd (handleDownload d w)) =
           notifications w @ ns @ [error_note (JStr busy_message)]))
   \<and> (fst (getDownloadUrl d (snd (showLoadingState w))) = Normal (Some u) \<and> \<not> stringifies u \<longrightarrow>
        fst (handleDownload d w) = Normal () \<and>
        console (snd (handleDownload d w)) = console w @ [TypeError] \<and>
        notifications (snd (handleDownload d w)) =
           notifications w @ [error_note (JStr busy_message)])
   \<and> (fst (getDownloadUrl (detectDeviceType (userAgent w)) (snd (showLoadingState w))) = Throw e' \<longrightarrow>
        fst (handleOriginalDownload w) = Normal () \<and>
        console (snd (handleOriginalDownload w)) = console w @ [e'] \<and>
        (\<exists>ns. notifications (snd (handleOriginalDownload w)) =
           notifications w @ ns @ [error_note (JStr expired_message)]))
   \<and> (fst (getDownloadUrl (detectDeviceType (userAgent w)) (snd (showLoadingState w)))
          = Normal (Some u) \<and> \<not> stringifies u \<longrightarrow>
        fst (handleOriginalDownload w) = Normal () \<and>
        console (snd (handleOriginalDownload w)) = console w @ [TypeError] \<and>
        notifications (snd (handleOriginalDownload w)) =
           notifications w @ [error_note (JStr expired_message)])"
proof -
  let ?w1 = "snd (showLoadingState w)"
  have thrown: "fst r = Normal () \<and> console (snd r) = console w @ [e'] \<and>
      (\<exists>ns. notifications (snd r) = notifications w @ ns @ [error_note (JStr msg)])"
    if t: "fst (getDownloadUrl d' ?w1) = Throw e'"
      and r: "r = flow_result msg (fst (getDownloadUrl d' ?w1)) (snd (getDownloadUrl d' ?w1))"
    for r d' msg
  proof -
    obtain w2 where g: "getDownloadUrl d' ?w1 = (Throw e', w2)"
      using t by (cases "getDownloadUrl d' ?w1") simp
    have ok: "resolution_ok ?w1 (Throw e', w2)"
      using resolution_from_busy [of w d'] g by simp
    obtain ns where "notifications (caught e' msg w2) =
        notifications ?w1 @ ns @ [error_note (JStr msg)]"
      using thrown_notifications [OF ok, of msg] by blast
    then show ?thesis
      using resolution_console_buttons(1) [OF ok]
      by (simp add: r g flow_result_thrown hideLoadingState_frame caught_frame
          showLoadingState_frame)
  qed
  have download: "fst r = Normal () \<and> console (snd r) = console w @ [TypeError] \<and>
      notifications (snd r) = notifications w @ [error_note (JStr msg)]"
    if t: "fst (getDownloadUrl d' ?w1) = Normal (Some u)" and s: "\<not> stringifies u"
      and r: "r = flow_result msg (fst (getDownloadUrl d' ?w1)) (snd (getDownloadUrl d' ?w1))"
    for r d' msg
  proof -
    obtain w2 where g: "getDownloadUrl d' ?w1 = (Normal (Some u), w2)"
      using t by (cases "getDownloadUrl d' ?w1") simp
    have ok: "resolution_ok ?w1 (Normal (Some u), w2)"
      using resolution_from_busy [of w d'] g by simp
    have dt: "download_throws (Some u)"
      using returned_url_notifications(2) [OF ok] s by (simp add: download_throws_def)
    show ?thesis
      using resolution_console_buttons(1) [OF ok] returned_url_notifications(1) [OF ok]
      by (simp add: r g flow_result_download_throws [OF dt] hideLoadingState_frame caught_frame
          showLoadingState_frame)
  qed
  show ?thesis
    using thrown [OF _ handleDownload_result [of d w]]
      thrown [OF _ handleOriginalDownload_result [of w]]
      download [OF _ _ handleDownload_result [of d w]]
      download [OF _ _ handleOriginalDownload_result [of w]]
    by (simp add: handleDownload_result [of d w] handleOriginalDownload_result [of w]
        flow_result_never_throws)
qed

text \<open>
  Runs of C5: the body of hop 1 is not JSON (the parser throws) under
  \<^const>\<open>handleDownload\<close>; the body of hop 1 is \<^verbatim>\<open>null\<close> (the property read throws)
  under \<^const>\<open>handleOriginalDownload\<close>; the final URL cannot be converted to a string
  (\<^verbatim>\<open>downloadFile\<close> throws) under \<^const>\<open>handleDownload\<close>.
\<close>

theorem entry_points_never_throw_witness:
  "fst (getDownloadUrl ''pc''
          (snd (showLoadingState (example_page [FetchResponds \<lparr>status = 200, body = BodyInvalid\<rparr>]))))
      = Throw JsonSyntaxError
   \<and> fst (handleDownload ''pc'' (example_page [FetchResponds \<lparr>status = 200, body = BodyInvalid\<rparr>]))
      = Normal ()
   \<and> (\<exists>ns. notifications
        (snd (handleDownload ''pc'' (example_page [FetchResponds \<lparr>status = 200, body = BodyInvalid\<rparr>])))
      = ns @ [error_note (JStr busy_message)])
   \<and> console
        (snd (handleDownload ''pc'' (example_page [FetchResponds \<lparr>status = 200, body = BodyInvalid\<rparr>])))
      = [JsonSyntaxError]
   \<and> fst (getDownloadUrl (detectDeviceType (userAgent (example_page [ok_response JNull])))
          (snd (showLoadingState (example_page [ok_response JNull]))))
      = Throw TypeError
   \<and> (\<exists>ns. notifications (snd (handleOriginalDownload (example_page [ok_response JNull])))
      = ns @ [error_note (JStr expired_message)])
   \<and> console (snd (handleOriginalDownload (example_page [ok_response JNull]))) = [TypeError]
   \<and> \<not> stringifies (JObj [(''toString'', JNull)])
   \<and> notifications (snd (handleDownload ''pc'' (example_page
        [ok_response (JObj [(''webhost'', JStr ''https://x/y'')]),
         ok_response (JObj [(''go'', JObj [(''toString'', JNull)])])])))
      = [error_note (JStr busy_message)]
   \<and> console (snd (handleDownload ''pc'' (example_page
        [ok_response (JObj [(''webhost'', JStr ''https://x/y'')]),
         ok_response (JObj [(''go'', JObj [(''toString'', JNull)])])])))
      = [TypeError]"
proof -
  let ?w1 = "example_page [FetchResponds \<lparr>status = 200, body = BodyInvalid\<rparr>]"
  let ?w2 = "example_page [ok_response JNull]"
  let ?w3 = "example_page
        [ok_response (JObj [(''webhost'', JStr ''https://x/y'')]),
         ok_response (JObj [(''go'', JObj [(''toString'', JNull)])])]"
  have h1: "fst (getDownloadUrl ''pc'' (snd (showLoadingState ?w1))) = Throw JsonSyntaxError"
    by (simp add: run_defs)
  have h2: "fst (getDownloadUrl (detectDeviceType (userAgent ?w2)) (snd (showLoadingState ?w2)))
      = Throw TypeError"
    by (simp add: run_defs)
  have h3: "fst (getDownloadUrl ''pc'' (snd (showLoadingState ?w3)))
      = Normal (Some (JObj [(''toString'', JNull)]))"
    by (simp add: run_defs)
  have s: "\<not> stringifies (JObj [(''toString'', JNull)])"
    by simp
  have n: "notifications ?w1 = []" "notifications ?w2 = []" "notifications ?w3 = []"
    "console ?w1 = []" "console ?w2 = []" "console ?w3 = []"
    by (simp_all add: example_page_def)
  show ?thesis
    using entry_points_never_throw [of "''pc''" ?w1 e JsonSyntaxError u]
      entry_points_never_throw [of d ?w2 e TypeError u]
      entry_points_never_throw [of "''pc''" ?w3 e e' "JObj [(''toString'', JNull)]"]
      h1 h2 h3 s n
    by simp
qed

section \<open>Verification of the single page manager\<close>

lemmas spa_defs =
  navigateToSection_def updateActiveNav_def updateURL_def showSection_def hide_section_def
  reveal_def handleInitialRoute_def page_load_def location_hash_def history_length_def
  on_popstate_def browser_back_def active_sections_def sections_def Let_def
  section_element_def example_elements_def unmarked_elements_def nav_link_def
  example_links_def

subsection \<open>What a navigation does\<close>

lemma navigate_history:
  "section \<in> set sections \<Longrightarrow>
     location_hash (navigateToSection section s) = CHR ''#'' # section \<and>
     past (navigateToSection section s) = current s # past s \<and>
     future (navigateToSection section s) = [] \<and>
     entry_state (current (navigateToSection section s)) = Some section \<and>
     currentSection (navigateToSection section s) = section"
  by (simp add: navigateToSection_def updateActiveNav_def updateURL_def showSection_def
      location_hash_def Let_def)

text \<open>Back from an entry that \<^const>\<open>navigateToSection\<close> pushed, to an entry with a state:
  the section of that state is shown again and the history keeps its length.\<close>

lemma back_to_pushed_entry:
  assumes "section \<in> set sections" and "entry_state (current s) = Some prev" and "prev \<noteq> []"
  shows "browser_back (navigateToSection section s) =
           showSection prev False
             ((navigateToSection section s)
                \<lparr>past := past s, current := current s,
                 future := [\<lparr>entry_state = Some section, entry_hash = CHR ''#'' # section\<rparr>]\<rparr>)"
    and "history_length (browser_back (navigateToSection section s)) =
           history_length (navigateToSection section s)"
    and "location_hash (browser_back (navigateToSection section s)) = location_hash s"
    and "currentSection (browser_back (navigateToSection section s)) = prev"
  using assms
  by (simp_all add: browser_back_def on_popstate_def navigateToSection_def updateActiveNav_def
      updateURL_def showSection_def history_length_def location_hash_def Let_def)

subsection \<open>C6: back to the entry of the initial load\<close>

text \<open>
  C6 on the example document, loaded without a fragment, so with the home section
  active: \<^verbatim>\<open>navigateToSection("faq")\<close> sets the fragment to \<^verbatim>\<open>#faq\<close>, adds one
  history entry and shows the FAQ section. Back then returns to the entry of the
  initial load without adding an entry, and the fragment is empty again; but that
  entry has no state, the \<^verbatim>\<open>popstate\<close> listener does nothing, and the FAQ section
  stays active where the claim says the home section is restored.
\<close>

theorem back_to_initial_entry_keeps_faq:
  "active_sections (page_load example_elements example_links []) = [Some ''home'']
   \<and> location_hash (navigateToSection ''faq'' (page_load example_elements example_links []))
       = ''#faq''
   \<and> history_length (navigateToSection ''faq'' (page_load example_elements example_links []))
       = history_length (page_load example_elements example_links []) + 1
   \<and> active_sections (navigateToSection ''faq'' (page_load example_elements example_links []))
       = [Some ''faq'']
   \<and> history_length
        (browser_back (navigateToSection ''faq'' (page_load example_elements example_links [])))
       = history_length (navigateToSection ''faq'' (page_load example_elements example_links []))
   \<and> location_hash
        (browser_back (navigateToSection ''faq'' (page_load example_elements example_links [])))
       = []
   \<and> active_sections
        (browser_back (navigateToSection ''faq'' (page_load example_elements example_links [])))
       = [Some ''faq'']
   \<and> currentSection
        (browser_back (navigateToSection ''faq'' (page_load example_elements example_links [])))
       = ''faq''"
  by (simp add: spa_defs)

subsection \<open>C7: the initial route\<close>

text \<open>
  C7 as stated fails: with a fragment outside the fixed set, \<^const>\<open>handleInitialRoute\<close>
  only highlights the home link. On a document whose markup marks no section active,
  no section is active after the load.
\<close>

theorem unknown_fragment_activates_nothing:
  "drop 1 ''#doesnotexist'' \<notin> set sections
   \<and> active_sections (page_load unmarked_elements example_links ''#doesnotexist'') = []
   \<and> active_sections (page_load unmarked_elements example_links []) = []"
  by (simp add: spa_defs)

text \<open>
  C7 as amended: on a load whose fragment is absent or outside the fixed set, the
  manager leaves every element as the markup has it, so the home section is active
  after the load exactly when the markup marks it active; \<open>currentSection\<close> is
  \<^verbatim>\<open>home\<close>, the history is untouched, and the links are highlighted for \<^verbatim>\<open>home\<close>.
\<close>

theorem unknown_fragment_keeps_markup:
  assumes "drop 1 hash = [] \<or> drop 1 hash \<notin> set sections"
  shows "elements (page_load els lks hash) = els
    \<and> active_sections (page_load els lks hash) = map el_id (filter el_active els)
    \<and> currentSection (page_load els lks hash) = ''home''
    \<and> location_hash (page_load els lks hash) = hash
    \<and> history_length (page_load els lks hash) = 1
    \<and> links (page_load els lks hash) =
        update_first (\<lambda>l. data_section l = Some ''home'') (\<lambda>l. l\<lparr>link_active := True\<rparr>)
          (map (\<lambda>l. if is_nav_link l then l\<lparr>link_active := False\<rparr> else l) lks)"
  using assms
  by (auto simp: page_load_def handleInitialRoute_def updateActiveNav_def location_hash_def
      active_sections_def history_length_def Let_def)

text \<open>A run of the amended C7: the markup marks the home section active, the fragment
  is unknown, and the home section is the active one after the load.\<close>

theorem unknown_fragment_keeps_markup_witness:
  "drop 1 ''#doesnotexist'' \<notin> set sections
   \<and> elements (page_load example_elements example_links ''#doesnotexist'') = example_elements
   \<and> active_sections (page_load example_elements example_links ''#doesnotexist'') = [Some ''home'']
   \<and> currentSection (page_load example_elements example_links ''#doesnotexist'') = ''home''"
proof -
  have h: "drop 1 ''#doesnotexist'' = [] \<or> drop 1 ''#doesnotexist'' \<notin> set sections"
    by (simp add: sections_def)
  have a: "map el_id (filter el_active example_elements) = [Some ''home'']"
    by (simp add: example_elements_def section_element_def)
  show ?thesis
    using unknown_fragment_keeps_markup [OF h, of example_elements example_links] h a
    by simp
qed

subsection \<open>C10: an identifier outside the fixed set\<close>

text \<open>
  C10: \<^const>\<open>navigateToSection\<close> with an identifier outside the fixed set returns the
  state it was given: the elements and their active markers, the links and their
  highlighting, the fragment, the history on both sides of the current entry, the
  waiting timers and \<open>currentSection\<close> are all unchanged; the function has no
  other outcome, so nothing is thrown.
\<close>

theorem navigate_outside_fixed_set_is_noop:
  assumes "section \<notin> set sections"
  shows "navigateToSection section s = s"
  using assms by (simp add: navigateToSection_def)

theorem navigate_outside_fixed_set_witness:
  "''pricing'' \<notin> set sections
   \<and> navigateToSection ''pricing'' (page_load example_elements example_links ''#faq'')
       = page_load example_elements example_links ''#faq''"
proof -
  have h: "''pricing'' \<notin> set sections" by (simp add: sections_def)
  show ?thesis
    using navigate_outside_fixed_set_is_noop [OF h] h by simp
qed

subsection \<open>C8: the accordion\<close>


lemma length_map_close: "length (map close_item items) = length items"
  by simp











section \<open>Verification of the navigation manager\<close>

lemma openNavigation_eq:
  "navToggle s = Some t \<Longrightarrow> nav s = Some n \<Longrightarrow>
   openNavigation s =
     (Normal (),
      s\<lparr>navToggle := Some (insert ''active'' t),
        nav := Some (insert ''nav--open'' (n - {''hidden''})),
        isNavOpen := True, body_overflow := ''hidden''\<rparr>)"
  by (simp add: openNavigation_def andThen_def navToggle_classList_def nav_classList_def)

lemma closeNavigation_eq:
  "navToggle s = Some t \<Longrightarrow> nav s = Some n \<Longrightarrow>
   closeNavigation s =
     (Normal (),
      s\<lparr>navToggle := Some (t - {''active''}),
        nav := Some (insert ''hidden'' n - {''nav--open''}),
        isNavOpen := False, body_overflow := []\<rparr>)"
  by (simp add: closeNavigation_def andThen_def navToggle_classList_def nav_classList_def)

text \<open>An operation on a page without the toggle throws before it changes anything;
  without the panel it throws once it has changed the toggle's class, and
  \<open>isNavOpen\<close>, the panel and the body's overflow are as before.\<close>

lemma operations_without_toggle:
  "navToggle s = None \<Longrightarrow> openNavigation s = (Throw TypeError, s)"
  "navToggle s = None \<Longrightarrow> closeNavigation s = (Throw TypeError, s)"
  by (simp_all add: openNavigation_def closeNavigation_def andThen_def navToggle_classList_def)

lemma operations_without_panel:
  "navToggle s = Some t \<Longrightarrow> nav s = None \<Longrightarrow>
     openNavigation s = (Throw TypeError, s\<lparr>navToggle := Some (insert ''active'' t)\<rparr>)"
  "navToggle s = Some t \<Longrightarrow> nav s = None \<Longrightarrow>
     closeNavigation s = (Throw TypeError, s\<lparr>navToggle := Some (t - {''active''})\<rparr>)"
  by (simp_all add: openNavigation_def closeNavigation_def andThen_def navToggle_classList_def
      nav_classList_def)

lemma on_scroll_view: "nav_view (on_scroll y s) = nav_view s"
  by (simp add: on_scroll_def header_classList_def nav_view_def Let_def split: option.splits)

text \<open>Every listener leaves the navigation state alone or is one of the three
  operations.\<close>

lemma dispatch_is_operation:
  "nav_view (snd (dispatch ev s)) = nav_view s
   \<or> dispatch ev s = closeNavigation s
   \<or> dispatch ev s = openNavigation s"
  by (cases ev) (simp_all add: dispatch_def toggleNavigation_def on_scroll_view)

lemma invariant_from_view: "nav_view s' = nav_view s \<Longrightarrow> nav_invariant s' = nav_invariant s"
  by (simp add: nav_view_def nav_invariant_def panel_visible_def scroll_locked_def)

lemma elements_from_view:
  "nav_view s' = nav_view s \<Longrightarrow> navToggle s' = navToggle s \<and> nav s' = nav s"
  by (simp add: nav_view_def)

lemma invariant_after_operation:
  assumes "navToggle s = Some t" and "nav s = Some n"
  shows "nav_invariant (snd (openNavigation s))" and "nav_invariant (snd (closeNavigation s))"
  using assms
  by (simp_all add: openNavigation_eq closeNavigation_eq nav_invariant_def panel_visible_def
      scroll_locked_def)

lemma elements_after_operation:
  assumes "navToggle s = Some t" and "nav s = Some n"
  shows "navToggle (snd (openNavigation s)) \<noteq> None \<and> nav (snd (openNavigation s)) \<noteq> None"
    and "navToggle (snd (closeNavigation s)) \<noteq> None \<and> nav (snd (closeNavigation s)) \<noteq> None"
  using assms by (simp_all add: openNavigation_eq closeNavigation_eq)

lemma dispatch_preserves:
  assumes "navToggle s \<noteq> None" and "nav s \<noteq> None" and "nav_invariant s"
  shows "navToggle (snd (dispatch ev s)) \<noteq> None \<and> nav (snd (dispatch ev s)) \<noteq> None
    \<and> nav_invariant (snd (dispatch ev s))"
proof -
  obtain t n where tn: "navToggle s = Some t" "nav s = Some n"
    using assms by auto
  consider "nav_view (snd (dispatch ev s)) = nav_view s"
    | "dispatch ev s = closeNavigation s" | "dispatch ev s = openNavigation s"
    using dispatch_is_operation by blast
  then show ?thesis
  proof cases
    case 1
    then show ?thesis
      using assms invariant_from_view [OF 1] elements_from_view [OF 1] by simp
  next
    case 2
    then show ?thesis
      using invariant_after_operation(2) [OF tn] elements_after_operation(2) [OF tn] by simp
  next
    case 3
    then show ?thesis
      using invariant_after_operation(1) [OF tn] elements_after_operation(1) [OF tn] by simp
  qed
qed

lemma run_events_preserves:
  "navToggle s \<noteq> None \<Longrightarrow> nav s \<noteq> None \<Longrightarrow> nav_invariant s \<Longrightarrow>
     nav_invariant (run_events evs s)"
proof (induction evs arbitrary: s)
  case Nil
  then show ?case by simp
next
  case (Cons ev evs)
  have "navToggle (snd (dispatch ev s)) \<noteq> None \<and> nav (snd (dispatch ev s)) \<noteq> None
    \<and> nav_invariant (snd (dispatch ev s))"
    using Cons.prems by (rule dispatch_preserves)
  then show ?case using Cons.IH by simp
qed

subsection \<open>C9: the navigation state\<close>

text \<open>
  C9, on a page that has the toggle and the panel: each of open, close and toggle
  completes normally and leaves \<open>isNavOpen\<close> true exactly when the panel is visible
  and the page scroll is locked. Opening shows the panel and locks the scroll,
  closing hides it and restores the scroll, and toggle is the one or the other.
  Every listener either leaves the navigation state as it is or is close or open
  itself, so the invariant, once it holds, holds after any sequence of events.
\<close>

theorem navigation_state_invariant:
  "(navToggle s \<noteq> None \<and> nav s \<noteq> None \<longrightarrow>
      fst (openNavigation s) = Normal () \<and>
      isNavOpen (snd (openNavigation s)) \<and> panel_visible (snd (openNavigation s)) \<and>
      scroll_locked (snd (openNavigation s)) \<and> nav_invariant (snd (openNavigation s)) \<and>
      fst (closeNavigation s) = Normal () \<and>
      \<not> isNavOpen (snd (closeNavigation s)) \<and> \<not> panel_visible (snd (closeNavigation s)) \<and>
      \<not> scroll_locked (snd (closeNavigation s)) \<and> nav_invariant (snd (closeNavigation s)) \<and>
      fst (toggleNavigation s) = Normal () \<and>
      isNavOpen (snd (toggleNavigation s)) = (\<not> isNavOpen s) \<and>
      nav_invariant (snd (toggleNavigation s)))
   \<and> (nav_view (snd (dispatch ev s)) = nav_view s
        \<or> dispatch ev s = closeNavigation s \<or> dispatch ev s = openNavigation s)
   \<and> (navToggle s \<noteq> None \<and> nav s \<noteq> None \<and> nav_invariant s \<longrightarrow>
        nav_invariant (run_events evs s))"
proof (intro conjI impI)
  assume "navToggle s \<noteq> None \<and> nav s \<noteq> None \<and> nav_invariant s"
  then show "nav_invariant (run_events evs s)"
    using run_events_preserves by blast
next
  show "nav_view (snd (dispatch ev s)) = nav_view s
        \<or> dispatch ev s = closeNavigation s \<or> dispatch ev s = openNavigation s"
    by (rule dispatch_is_operation)
next
  assume "navToggle s \<noteq> None \<and> nav s \<noteq> None"
  then obtain t n where tn: "navToggle s = Some t" "nav s = Some n"
    by auto
  show "fst (openNavigation s) = Normal ()"
    and "isNavOpen (snd (openNavigation s))"
    and "panel_visible (snd (openNavigation s))"
    and "scroll_locked (snd (openNavigation s))"
    and "nav_invariant (snd (openNavigation s))"
    by (simp_all add: openNavigation_eq [OF tn] nav_invariant_def panel_visible_def
        scroll_locked_def)
  show "fst (closeNavigation s) = Normal ()"
    and "\<not> isNavOpen (snd (closeNavigation s))"
    and "\<not> panel_visible (snd (closeNavigation s))"
    and "\<not> scroll_locked (snd (closeNavigation s))"
    and "nav_invariant (snd (closeNavigation s))"
    by (simp_all add: closeNavigation_eq [OF tn] nav_invariant_def panel_visible_def
        scroll_locked_def)
  show "fst (toggleNavigation s) = Normal ()"
    and "isNavOpen (snd (toggleNavigation s)) = (\<not> isNavOpen s)"
    and "nav_invariant (snd (toggleNavigation s))"
    by (simp_all add: toggleNavigation_def openNavigation_eq [OF tn] closeNavigation_eq [OF tn]
        nav_invariant_def panel_visible_def scroll_locked_def)
qed

text \<open>
  A run of C9 on the example page, whose panel is hidden in the markup: the
  operations one by one, then the toggle clicked, a scroll, Escape pressed, the
  toggle clicked again and the window resized to 1024 pixels.
\<close>

theorem navigation_state_invariant_witness:
  "navToggle example_nav_page \<noteq> None \<and> nav example_nav_page \<noteq> None
   \<and> nav_invariant example_nav_page
   \<and> isNavOpen (snd (openNavigation example_nav_page))
   \<and> panel_visible (snd (openNavigation example_nav_page))
   \<and> scroll_locked (snd (openNavigation example_nav_page))
   \<and> \<not> isNavOpen (snd (closeNavigation example_nav_page))
   \<and> \<not> scroll_locked (snd (closeNavigation example_nav_page))
   \<and> isNavOpen (snd (toggleNavigation example_nav_page))
   \<and> nav_invariant (snd (toggleNavigation example_nav_page))
   \<and> nav_invariant
        (run_events [ToggleClick, Scroll 120, KeyDown ''Escape'', ToggleClick, Resize 1024]
           example_nav_page)"
proof -
  have e: "navToggle example_nav_page \<noteq> None \<and> nav example_nav_page \<noteq> None"
    by (simp add: example_nav_page_def)
  have i: "nav_invariant example_nav_page"
    by (simp add: example_nav_page_def nav_invariant_def panel_visible_def scroll_locked_def)
  have c: "\<not> isNavOpen example_nav_page"
    by (simp add: example_nav_page_def)
  show ?thesis
    using navigation_state_invariant
        [of example_nav_page ev
          "[ToggleClick, Scroll 120, KeyDown ''Escape'', ToggleClick, Resize 1024]"]
      e i c
    by simp
qed

end
